theory Spec2Isabelle
  imports Main
begin

section \<open>Workspace trust: data model\<close>

text \<open>
  The development follows the workspace trust services of the workbench
  (\<^verbatim>\<open>WorkspaceTrustManagementService\<close>, \<^verbatim>\<open>WorkspaceTrustRequestService\<close>,
  \<^verbatim>\<open>WorkspaceTrustTransitionManager\<close> and \<^verbatim>\<open>WorkspaceTrustState\<close>).
  URIs are an abstract type \<open>'u\<close>; a rejected promise carries a reason of type \<open>exn\<close>.
\<close>

type_synonym exn = string

record 'u IWorkspaceTrustUriInfo =
  uri :: 'u
  trusted :: bool

datatype WorkbenchState = EMPTY | FOLDER | WORKSPACE

text \<open>
  The result of \<^verbatim>\<open>toWorkspaceIdentifier(workspace)\<close>: a single folder with its URI, a
  workspace with its configuration path, or neither.
\<close>

datatype 'u WorkspaceIdentifier =
    SingleFolderWorkspaceIdentifier 'u
  | MultiRootWorkspaceIdentifier 'u
  | EmptyWorkspaceIdentifier

text \<open>
  \<^verbatim>\<open>ResolverResult\<close>: the field \<^verbatim>\<open>options\<close> may be absent, and so may
  \<^verbatim>\<open>options.isTrusted\<close>.
\<close>

datatype ResolvedOptions = ResolvedOptions "bool option"

datatype ResolverResult = ResolverResult "ResolvedOptions option"

text \<open>
  The URI primitives the services consume (\<^verbatim>\<open>uriIdentityService.extUri\<close>,
  \<^verbatim>\<open>URI.fsPath\<close>, \<^verbatim>\<open>URI.scheme\<close>, \<^verbatim>\<open>URI.file\<close>, \<^verbatim>\<open>URI.revive\<close> and
  \<^verbatim>\<open>splitName(...).parentPath\<close>) are parameters of the model.
\<close>

record 'u UriOps =
  isEqual :: "'u \<Rightarrow> 'u \<Rightarrow> bool"
  isEqualOrParent :: "'u \<Rightarrow> 'u \<Rightarrow> bool"
  removeTrailingPathSeparator :: "'u \<Rightarrow> 'u"
  fsPath :: "'u \<Rightarrow> string"
  scheme :: "'u \<Rightarrow> string"
  uriFile :: "string \<Rightarrow> 'u"
  parentPath :: "string \<Rightarrow> string"
  revive :: "'u \<Rightarrow> 'u"

text \<open>
  What the services read from their collaborators: the platform flag \<^verbatim>\<open>isWeb\<close>, the
  inspected configuration value of \<^verbatim>\<open>security.workspace.trust.enabled\<close>, the environment
  service, the workspace context service and the remote canonical-URI lookup (which may
  reject).
\<close>

record 'u Environment =
  uriOps :: "'u UriOps"
  isWeb :: bool
  userValue :: "bool option"
  defaultValue :: "bool option"
  extensionTestsLocationURI :: "'u option"
  remoteAuthority :: "string option"
  workbenchState :: WorkbenchState
  folders :: "'u list"
  configuration :: "'u option"
  isUntitledWorkspace :: "'u \<Rightarrow> bool"
  workspaceIdentifier :: "'u WorkspaceIdentifier"
  getCanonicalURI :: "'u \<Rightarrow> exn + 'u"

text \<open>
  A transition participant: a label, and what its asynchronous callback does when given
  the new trust value (\<open>None\<close>: it resolves; \<open>Some e\<close>: it rejects with \<open>e\<close>).
\<close>

record IWorkspaceTrustTransitionParticipant =
  label :: nat
  participate :: "bool \<Rightarrow> exn option"

text \<open>
  The value found under the storage key \<^verbatim>\<open>content.trust.model.key\<close>, as
  \<^verbatim>\<open>loadTrustInfo\<close> reads it:
  \<^item> \<open>Malformed\<close>: the empty string, a string that \<^verbatim>\<open>JSON.parse\<close> rejects, or one
    that it reads as a falsy value (\<^verbatim>\<open>null\<close>, \<^verbatim>\<open>false\<close>, \<^verbatim>\<open>0\<close>, the empty
    string);
  \<^item> \<open>NonObject\<close>: a string that \<^verbatim>\<open>JSON.parse\<close> reads as a truthy value that is not
    an object (a number, a non-empty string, \<^verbatim>\<open>true\<close>);
  \<^item> \<open>Info\<close>: an object, taken at its declared type \<^verbatim>\<open>IWorkspaceTrustInfo\<close>: the
    property \<^verbatim>\<open>uriTrustInfo\<close> is absent (\<open>None\<close>) or an array of entries, each with a
    URI and a boolean \<^verbatim>\<open>trusted\<close>. Objects outside that type (a \<^verbatim>\<open>uriTrustInfo\<close>
    that is not an array, an entry that is \<^verbatim>\<open>null\<close>, a \<^verbatim>\<open>trusted\<close> that is not a
    boolean) are not values of this datatype.
\<close>

datatype 'u StoredValue =
    Malformed
  | NonObject
  | Info "'u IWorkspaceTrustUriInfo list option"

text \<open>Observable effects, in the order in which they happen.\<close>

datatype Event =
    StorageStore
  | DidChangeTrustedFolders
  | DidChangeTrust bool
  | ContextKeySet bool
  | SaveMemento "bool option" "bool option"
  | Participate nat bool
  | DidInitiateWorkspaceTrustRequest "string option"
  | DidInitiateWorkspaceTrustRequestOnStartup

text \<open>
  The mutable state of the services once \<^verbatim>\<open>_trustStateInfo\<close> is assigned: the trusted
  entries (\<^verbatim>\<open>_trustStateInfo.uriTrustInfo\<close>), the remote authority once resolved
  (\<^verbatim>\<open>_remoteAuthority\<close>), the two keys of the workspace memento, the registered
  participants, the global storage value, the request service's cached flag
  (\<^verbatim>\<open>_trusted\<close>), its pending promise and resolver, and the promises created so far
  (\<open>None\<close>: pending; \<open>Some v\<close>: resolved with \<open>v\<close>, where \<open>v = None\<close> is
  \<^verbatim>\<open>undefined\<close>).
\<close>

record 'u Service =
  uriTrustInfo :: "'u IWorkspaceTrustUriInfo list"
  remoteAuthorityResult :: "ResolverResult option"
  mementoIsTrusted :: "bool option"
  mementoAcceptsOutOfWorkspaceFiles :: "bool option"
  participants :: "IWorkspaceTrustTransitionParticipant list"
  storage :: "'u StoredValue option"
  requestTrusted :: bool
  modalTrustRequestPromise :: "nat option"
  modalTrustRequestResolver :: "nat option"
  promises :: "bool option option list"
  trace :: "Event list"

text \<open>What an \<^verbatim>\<open>async\<close> function hands back: a value, or a promise it follows.\<close>

datatype 'a Returned = Fulfilled 'a | Follows nat

section \<open>Events and the workspace memento\<close>

text \<open>Firing an emitter (or writing to storage) appends to the trace.\<close>

definition fire :: "Event \<Rightarrow> 'u Service \<Rightarrow> 'u Service" where
  "fire e s = s\<lparr>trace := trace s @ [e]\<rparr>"

text \<open>
  \<^verbatim>\<open>_onDidChangeTrust.fire(trusted)\<close>: the request service subscribed in its constructor
  and stores the value in \<^verbatim>\<open>_trusted\<close> and in the context key.
\<close>

definition fireDidChangeTrust :: "bool \<Rightarrow> 'u Service \<Rightarrow> 'u Service" where
  "fireDidChangeTrust t s =
     fire (ContextKeySet t) ((fire (DidChangeTrust t) s)\<lparr>requestTrusted := t\<rparr>)"

text \<open>
  \<^verbatim>\<open>WorkspaceTrustState\<close>: both setters end with \<^verbatim>\<open>saveMemento()\<close>, recorded with the
  two keys as they are saved. The getter of \<^verbatim>\<open>acceptsOutOfWorkspaceFiles\<close> reads the
  key with \<^verbatim>\<open>?? false\<close>; the setter of \<^verbatim>\<open>isTrusted\<close> copies a falsy value
  (\<^verbatim>\<open>false\<close> or \<^verbatim>\<open>undefined\<close>) into the key of \<^verbatim>\<open>acceptsOutOfWorkspaceFiles\<close>.
\<close>

definition saveMemento :: "'u Service \<Rightarrow> 'u Service" where
  "saveMemento s =
     fire (SaveMemento (mementoIsTrusted s) (mementoAcceptsOutOfWorkspaceFiles s)) s"

definition get_acceptsOutOfWorkspaceFiles :: "'u Service \<Rightarrow> bool" where
  "get_acceptsOutOfWorkspaceFiles s =
     (case mementoAcceptsOutOfWorkspaceFiles s of Some b \<Rightarrow> b | None \<Rightarrow> False)"

definition set_acceptsOutOfWorkspaceFiles :: "bool \<Rightarrow> 'u Service \<Rightarrow> 'u Service" where
  "set_acceptsOutOfWorkspaceFiles v s =
     saveMemento (s\<lparr>mementoAcceptsOutOfWorkspaceFiles := Some v\<rparr>)"

definition get_isTrusted :: "'u Service \<Rightarrow> bool option" where
  "get_isTrusted s = mementoIsTrusted s"

definition set_isTrusted :: "bool option \<Rightarrow> 'u Service \<Rightarrow> 'u Service" where
  "set_isTrusted v s =
     (let s1 = s\<lparr>mementoIsTrusted := v\<rparr>;
          s2 = (if v \<noteq> Some True then s1\<lparr>mementoAcceptsOutOfWorkspaceFiles := v\<rparr> else s1)
      in saveMemento s2)"

definition isWorkpaceTrusted :: "'u Service \<Rightarrow> bool" where
  "isWorkpaceTrusted s = (case get_isTrusted s of Some b \<Rightarrow> b | None \<Rightarrow> False)"

section \<open>Trust calculation\<close>

text \<open>
  \<^verbatim>\<open>isWorkspaceTrustEnabled\<close>: false on the web, otherwise
  \<^verbatim>\<open>userValue ?? defaultValue ?? false\<close>.
\<close>

definition isWorkspaceTrustEnabled :: "'u Environment \<Rightarrow> bool" where
  "isWorkspaceTrustEnabled env =
     (if isWeb env then False
      else (case userValue env of
              Some b \<Rightarrow> b
            | None \<Rightarrow> (case defaultValue env of Some b \<Rightarrow> b | None \<Rightarrow> False)))"

text \<open>\<^verbatim>\<open>environmentService.remoteAuthority\<close> as a condition: a non-empty string.\<close>

definition hasRemoteAuthority :: "'u Environment \<Rightarrow> bool" where
  "hasRemoteAuthority env = (case remoteAuthority env of None \<Rightarrow> False | Some a \<Rightarrow> a \<noteq> [])"

text \<open>\<^verbatim>\<open>this._remoteAuthority?.options?.isTrusted\<close>\<close>

fun remoteIsTrusted :: "ResolverResult option \<Rightarrow> bool option" where
  "remoteIsTrusted None = None"
| "remoteIsTrusted (Some (ResolverResult None)) = None"
| "remoteIsTrusted (Some (ResolverResult (Some (ResolvedOptions t)))) = t"

text \<open>
  The loop of \<^verbatim>\<open>getUriTrustInfo\<close> over the entries, carrying
  \<^verbatim>\<open>(resultState, maxLength, resultUri)\<close>.
\<close>

fun getUriTrustInfo_loop ::
  "'u UriOps \<Rightarrow> 'u \<Rightarrow> 'u IWorkspaceTrustUriInfo list \<Rightarrow> bool \<times> int \<times> 'u \<Rightarrow> bool \<times> int \<times> 'u"
where
  "getUriTrustInfo_loop ops u [] acc = acc"
| "getUriTrustInfo_loop ops u (trustInfo # rest) (resultState, maxLength, resultUri) =
     (if isEqualOrParent ops u (uri trustInfo) then
        (let p = fsPath ops (uri trustInfo) in
         if int (length p) > maxLength
         then getUriTrustInfo_loop ops u rest (trusted trustInfo, int (length p), uri trustInfo)
         else getUriTrustInfo_loop ops u rest (resultState, maxLength, resultUri))
      else getUriTrustInfo_loop ops u rest (resultState, maxLength, resultUri))"

definition getUriTrustInfo ::
  "'u UriOps \<Rightarrow> 'u IWorkspaceTrustUriInfo list \<Rightarrow> 'u \<Rightarrow> 'u IWorkspaceTrustUriInfo"
where
  "getUriTrustInfo ops entries u =
     (case getUriTrustInfo_loop ops u entries (False, - 1, u) of
        (resultState, maxLength, resultUri) \<Rightarrow> \<lparr>uri = resultUri, trusted = resultState\<rparr>)"

text \<open>\<^verbatim>\<open>getUrisTrust\<close> returns at the first URI that is not trusted.\<close>

fun getUrisTrust :: "'u UriOps \<Rightarrow> 'u IWorkspaceTrustUriInfo list \<Rightarrow> 'u list \<Rightarrow> bool" where
  "getUrisTrust ops entries [] = True"
| "getUrisTrust ops entries (u # us) =
     (if \<not> trusted (getUriTrustInfo ops entries u) then False
      else getUrisTrust ops entries us)"

text \<open>
  \<^verbatim>\<open>getCanonicalUri\<close> asks the remote resolver only when a remote authority is
  configured and resolved; \<open>canonicalAll\<close> is the loop of \<^verbatim>\<open>getWorkspaceUris\<close> over
  the workspace folders, which stops at the first lookup that rejects.
\<close>

definition getCanonicalUri :: "'u Environment \<Rightarrow> 'u Service \<Rightarrow> 'u \<Rightarrow> exn + 'u" where
  "getCanonicalUri env s u =
     (if hasRemoteAuthority env \<and> remoteAuthorityResult s \<noteq> None
      then getCanonicalURI env u else Inr u)"

fun canonicalAll :: "'u Environment \<Rightarrow> 'u Service \<Rightarrow> 'u list \<Rightarrow> exn + 'u list" where
  "canonicalAll env s [] = Inr []"
| "canonicalAll env s (u # us) =
     (case getCanonicalUri env s u of
        Inl e \<Rightarrow> Inl e
      | Inr c \<Rightarrow> (case canonicalAll env s us of Inl e \<Rightarrow> Inl e | Inr cs \<Rightarrow> Inr (c # cs)))"

definition getWorkspaceUris :: "'u Environment \<Rightarrow> 'u Service \<Rightarrow> exn + 'u list" where
  "getWorkspaceUris env s =
     (case canonicalAll env s (folders env) of
        Inl e \<Rightarrow> Inl e
      | Inr workspaceUris \<Rightarrow>
          (case configuration env of
             None \<Rightarrow> Inr workspaceUris
           | Some workspaceConfiguration \<Rightarrow>
               if \<not> isUntitledWorkspace env workspaceConfiguration
               then (case getCanonicalUri env s workspaceConfiguration of
                       Inl e \<Rightarrow> Inl e
                     | Inr c \<Rightarrow> Inr (workspaceUris @ [c]))
               else Inr workspaceUris))"

definition calculateWorkspaceTrust :: "'u Environment \<Rightarrow> 'u Service \<Rightarrow> exn + bool" where
  "calculateWorkspaceTrust env s =
     (if \<not> isWorkspaceTrustEnabled env then Inr True
      else if extensionTestsLocationURI env \<noteq> None then Inr True
      else if hasRemoteAuthority env then
        Inr (case remoteIsTrusted (remoteAuthorityResult s) of Some b \<Rightarrow> b | None \<Rightarrow> False)
      else if workbenchState env = EMPTY then
        Inr (case get_isTrusted s of Some b \<Rightarrow> b | None \<Rightarrow> False)
      else (case getWorkspaceUris env s of
              Inl e \<Rightarrow> Inl e
            | Inr workspaceUris \<Rightarrow>
                Inr (getUrisTrust (uriOps env) (uriTrustInfo s) workspaceUris)))"

section \<open>Trust transitions\<close>

text \<open>
  \<^verbatim>\<open>LinkedList.push\<close> appends, and iteration starts at the oldest element; the disposable
  that is handed back removes the element again.
\<close>

definition addWorkspaceTrustTransitionParticipant ::
  "IWorkspaceTrustTransitionParticipant \<Rightarrow> 'u Service \<Rightarrow> 'u Service"
where
  "addWorkspaceTrustTransitionParticipant p s = s\<lparr>participants := participants s @ [p]\<rparr>"

text \<open>
  \<^verbatim>\<open>participate\<close> awaits each callback before it invokes the next, so a rejection ends
  the loop. A callback is taken as opaque: it resolves or rejects and does not write the
  state of the services.
\<close>

fun participate_loop ::
  "bool \<Rightarrow> IWorkspaceTrustTransitionParticipant list \<Rightarrow> 'u Service \<Rightarrow> exn option \<times> 'u Service"
where
  "participate_loop t [] s = (None, s)"
| "participate_loop t (p # ps) s =
     (let s1 = fire (Participate (label p) t) s in
      case participate p t of
        Some e \<Rightarrow> (Some e, s1)
      | None \<Rightarrow> participate_loop t ps s1)"

definition WorkspaceTrustTransitionManager_participate ::
  "bool \<Rightarrow> 'u Service \<Rightarrow> exn option \<times> 'u Service"
where
  "WorkspaceTrustTransitionManager_participate t s = participate_loop t (participants s) s"

text \<open>
  \<^verbatim>\<open>updateWorkspaceTrust(trusted?)\<close>: a result is \<open>(None, s)\<close> when the promise resolves
  and \<open>(Some e, s)\<close> when it rejects with \<open>e\<close>; in both cases \<open>s\<close> is the state that is
  left behind.
\<close>

definition updateWorkspaceTrust ::
  "'u Environment \<Rightarrow> bool option \<Rightarrow> 'u Service \<Rightarrow> exn option \<times> 'u Service"
where
  "updateWorkspaceTrust env arg s =
     (case (case arg of None \<Rightarrow> calculateWorkspaceTrust env s | Some t \<Rightarrow> Inr t) of
        Inl e \<Rightarrow> (Some e, s)
      | Inr t \<Rightarrow>
          if isWorkpaceTrusted s = t then (None, s)
          else (let s1 = set_isTrusted (Some t) s in
                case WorkspaceTrustTransitionManager_participate t s1 of
                  (Some e, s2) \<Rightarrow> (Some e, s2)
                | (None, s2) \<Rightarrow> (None, fireDidChangeTrust t s2)))"

section \<open>Trusted folders\<close>

text \<open>
  \<^verbatim>\<open>loadTrustInfo\<close>: an absent or malformed value leaves \<^verbatim>\<open>result\<close> falsy, and it
  becomes \<^verbatim>\<open>{ uriTrustInfo: [] }\<close>; an object without \<^verbatim>\<open>uriTrustInfo\<close> gets the empty
  list; otherwise every entry is revived and the entries that are not trusted are
  filtered out. For a truthy value that is not an object, \<^verbatim>\<open>result.uriTrustInfo\<close> is
  \<^verbatim>\<open>undefined\<close> and the assignment \<^verbatim>\<open>result.uriTrustInfo = []\<close>, outside the
  \<^verbatim>\<open>try\<close>, throws a \<^verbatim>\<open>TypeError\<close> (a class body is strict code).
  \<^verbatim>\<open>saveTrustInfo\<close> stores the current entries, fires \<^verbatim>\<open>onDidChangeTrustedFolders\<close>
  and awaits \<^verbatim>\<open>updateWorkspaceTrust()\<close>.
\<close>

definition loadTrustInfo ::
  "'u Environment \<Rightarrow> 'u Service \<Rightarrow> exn + 'u IWorkspaceTrustUriInfo list"
where
  "loadTrustInfo env s =
     (case storage s of
        None \<Rightarrow> Inr []
      | Some Malformed \<Rightarrow> Inr []
      | Some NonObject \<Rightarrow> Inl ''TypeError''
      | Some (Info None) \<Rightarrow> Inr []
      | Some (Info (Some infos)) \<Rightarrow>
          Inr (filter (\<lambda>info. trusted info)
                 (map (\<lambda>info. \<lparr>uri = revive (uriOps env) (uri info), trusted = trusted info\<rparr>)
                    infos)))"

definition saveTrustInfo :: "'u Environment \<Rightarrow> 'u Service \<Rightarrow> exn option \<times> 'u Service" where
  "saveTrustInfo env s =
     (let s1 = fire StorageStore (s\<lparr>storage := Some (Info (Some (uriTrustInfo s)))\<rparr>);
          s2 = fire DidChangeTrustedFolders s1
      in updateWorkspaceTrust env None s2)"

text \<open>
  The loop of \<^verbatim>\<open>setUrisTrust\<close>, carrying the entries and the flag \<^verbatim>\<open>changed\<close>.
\<close>

fun setUrisTrust_loop ::
  "'u UriOps \<Rightarrow> bool \<Rightarrow> 'u list \<Rightarrow> 'u IWorkspaceTrustUriInfo list \<times> bool
     \<Rightarrow> 'u IWorkspaceTrustUriInfo list \<times> bool"
where
  "setUrisTrust_loop ops t [] acc = acc"
| "setUrisTrust_loop ops t (u # us) (entries, changed) =
     (if t then
        (case find (\<lambda>trustInfo. isEqual ops (uri trustInfo) u) entries of
           None \<Rightarrow> setUrisTrust_loop ops t us (entries @ [\<lparr>uri = u, trusted = True\<rparr>], True)
         | Some foundItem \<Rightarrow> setUrisTrust_loop ops t us (entries, changed))
      else
        (let previousLength = length entries;
             entries' = filter (\<lambda>trustInfo. \<not> isEqual ops (uri trustInfo) u) entries
         in if previousLength \<noteq> length entries'
            then setUrisTrust_loop ops t us (entries', True)
            else setUrisTrust_loop ops t us (entries', changed)))"

definition setUrisTrust ::
  "'u Environment \<Rightarrow> 'u list \<Rightarrow> bool \<Rightarrow> 'u Service \<Rightarrow> exn option \<times> 'u Service"
where
  "setUrisTrust env uris t s =
     (case setUrisTrust_loop (uriOps env) t uris (uriTrustInfo s, False) of
        (entries, changed) \<Rightarrow>
          if changed then saveTrustInfo env (s\<lparr>uriTrustInfo := entries\<rparr>)
          else (None, s\<lparr>uriTrustInfo := entries\<rparr>))"

text \<open>
  \<^verbatim>\<open>setTrustedFolders\<close> starts from the empty list and adds each cleaned URI that is not
  equal to one added before.
\<close>

fun setTrustedFolders_loop ::
  "'u UriOps \<Rightarrow> 'u list \<Rightarrow> 'u IWorkspaceTrustUriInfo list \<Rightarrow> 'u IWorkspaceTrustUriInfo list"
where
  "setTrustedFolders_loop ops [] entries = entries"
| "setTrustedFolders_loop ops (u # us) entries =
     (let cleanUri = removeTrailingPathSeparator ops u;
          added = list_ex (\<lambda>addedUri. isEqual ops (uri addedUri) cleanUri) entries
      in if added then setTrustedFolders_loop ops us entries
         else setTrustedFolders_loop ops us (entries @ [\<lparr>uri = cleanUri, trusted = True\<rparr>]))"

definition setTrustedFolders ::
  "'u Environment \<Rightarrow> 'u list \<Rightarrow> 'u Service \<Rightarrow> exn option \<times> 'u Service"
where
  "setTrustedFolders env uris s =
     saveTrustInfo env (s\<lparr>uriTrustInfo := setTrustedFolders_loop (uriOps env) uris []\<rparr>)"

definition getTrustedFolders :: "'u Service \<Rightarrow> 'u list" where
  "getTrustedFolders s = map uri (uriTrustInfo s)"

text \<open>
  \<^verbatim>\<open>initializeWorkspaceTrust\<close>: when \<^verbatim>\<open>loadTrustInfo\<close> throws, nothing has been
  assigned and the promise rejects.
\<close>

definition initializeWorkspaceTrust ::
  "'u Environment \<Rightarrow> 'u Service \<Rightarrow> exn option \<times> 'u Service"
where
  "initializeWorkspaceTrust env s =
     (case loadTrustInfo env s of
        Inl e \<Rightarrow> (Some e, s)
      | Inr info \<Rightarrow>
          (let s1 = s\<lparr>uriTrustInfo := info\<rparr> in
           case calculateWorkspaceTrust env s1 of
             Inl e \<Rightarrow> (Some e, s1)
           | Inr t \<Rightarrow> (None, set_isTrusted (Some t) s1)))"

text \<open>
  The listener on \<^verbatim>\<open>storageService.onDidChangeValue\<close>. Its condition is
  \<^verbatim>\<open>changeEvent.key === this.storageKey && JSON.stringify(this._trustStateInfo) !==
  JSON.stringify(this.loadTrustInfo())\<close>: \<open>keyMatches\<close> is the first conjunct, and the
  second is evaluated only when the first holds, so \<^verbatim>\<open>loadTrustInfo\<close> is called (and may
  throw) only then. \<^verbatim>\<open>JSON.stringify\<close> is not part of the model, so whether the two
  strings differ is the input \<open>stringsDiffer\<close> of the listener: the strings can differ
  where the entry lists are equal, since \<^verbatim>\<open>setTrustedFolders\<close> builds its entries with
  the keys in the order \<^verbatim>\<open>trusted\<close>, \<^verbatim>\<open>uri\<close> and \<^verbatim>\<open>loadTrustInfo\<close> in the order
  \<^verbatim>\<open>uri\<close>, \<^verbatim>\<open>trusted\<close>. In the body \<^verbatim>\<open>loadTrustInfo\<close> is called a second time, on
  the same storage value.
\<close>

definition onDidChangeValue ::
  "'u Environment \<Rightarrow> bool \<Rightarrow> bool \<Rightarrow> 'u Service \<Rightarrow> exn option \<times> 'u Service"
where
  "onDidChangeValue env keyMatches stringsDiffer s =
     (if \<not> keyMatches then (None, s)
      else (case loadTrustInfo env s of
              Inl e \<Rightarrow> (Some e, s)
            | Inr loaded \<Rightarrow>
                if stringsDiffer
                then (case loadTrustInfo env s of
                        Inl e \<Rightarrow> (Some e, s)
                      | Inr info \<Rightarrow>
                          updateWorkspaceTrust env None
                            (fire DidChangeTrustedFolders (s\<lparr>uriTrustInfo := info\<rparr>)))
                else (None, s)))"

definition setWorkspaceTrust ::
  "'u Environment \<Rightarrow> bool \<Rightarrow> 'u Service \<Rightarrow> exn option \<times> 'u Service"
where
  "setWorkspaceTrust env t s =
     (if workbenchState env = EMPTY then updateWorkspaceTrust env (Some t) s
      else (case getWorkspaceUris env s of
              Inl e \<Rightarrow> (Some e, s)
            | Inr workspaceFolders \<Rightarrow> setUrisTrust env workspaceFolders t s))"

text \<open>
  \<^verbatim>\<open>Schemas.file\<close> is the string \<^verbatim>\<open>file\<close>. In \<^verbatim>\<open>canSetWorkspaceTrust\<close> the parent
  folder is \<^verbatim>\<open>URI.file(splitName(uri.fsPath).parentPath)\<close>.
\<close>

definition canSetParentFolderTrust :: "'u Environment \<Rightarrow> bool" where
  "canSetParentFolderTrust env =
     (case workspaceIdentifier env of
        SingleFolderWorkspaceIdentifier w \<Rightarrow> scheme (uriOps env) w = ''file''
      | _ \<Rightarrow> False)"

definition canSetWorkspaceTrust :: "'u Environment \<Rightarrow> 'u Service \<Rightarrow> bool" where
  "canSetWorkspaceTrust env s =
     (if hasRemoteAuthority env \<and>
         (remoteAuthorityResult s = None \<or> remoteIsTrusted (remoteAuthorityResult s) \<noteq> None)
      then False
      else if workbenchState env = EMPTY then True
      else if \<not> isWorkpaceTrusted s then True
      else (case workspaceIdentifier env of
              SingleFolderWorkspaceIdentifier w \<Rightarrow>
                if \<not> (scheme (uriOps env) w = ''file'') then False
                else (let trustInfo = getUriTrustInfo (uriOps env) (uriTrustInfo s) w in
                      if \<not> trusted trustInfo \<or> \<not> isEqual (uriOps env) w (uri trustInfo)
                      then False
                      else if canSetParentFolderTrust env \<and>
                              trusted (getUriTrustInfo (uriOps env) (uriTrustInfo s)
                                 (uriFile (uriOps env) (parentPath (uriOps env) (fsPath (uriOps env) w))))
                      then False
                      else True)
            | _ \<Rightarrow> False))"

section \<open>Trust requests\<close>

text \<open>
  Resolving a promise settles it once: a promise that is already settled, or that does
  not exist, is left as it is.
\<close>

definition settle :: "nat \<Rightarrow> bool option \<Rightarrow> bool option option list \<Rightarrow> bool option option list" where
  "settle p v ps = (if p < length ps \<and> ps ! p = None then ps[p := Some v] else ps)"

text \<open>What a caller holding the returned value sees: \<open>None\<close> while it is pending.\<close>

definition observe :: "'u Service \<Rightarrow> bool Returned \<Rightarrow> bool option option" where
  "observe s r =
     (case r of
        Fulfilled b \<Rightarrow> Some (Some b)
      | Follows p \<Rightarrow> (if p < length (promises s) then promises s ! p else None))"

text \<open>
  \<^verbatim>\<open>resolveRequest\<close> and \<^verbatim>\<open>cancelRequest\<close> call the stored resolver, if any, and clear
  both fields; \<^verbatim>\<open>completeRequest\<close> persists a changed value through
  \<^verbatim>\<open>setWorkspaceTrust\<close> before it resolves, and resolves nothing when that rejects.
\<close>

definition resolveRequest :: "bool option \<Rightarrow> 'u Service \<Rightarrow> 'u Service" where
  "resolveRequest arg s =
     (case modalTrustRequestResolver s of
        None \<Rightarrow> s
      | Some p \<Rightarrow>
          s\<lparr>promises := settle p (Some (case arg of Some b \<Rightarrow> b | None \<Rightarrow> requestTrusted s))
                          (promises s),
            modalTrustRequestResolver := None,
            modalTrustRequestPromise := None\<rparr>)"

definition cancelRequest :: "'u Service \<Rightarrow> 'u Service" where
  "cancelRequest s =
     (case modalTrustRequestResolver s of
        None \<Rightarrow> s
      | Some p \<Rightarrow>
          s\<lparr>promises := settle p None (promises s),
            modalTrustRequestResolver := None,
            modalTrustRequestPromise := None\<rparr>)"

definition completeRequest ::
  "'u Environment \<Rightarrow> bool option \<Rightarrow> 'u Service \<Rightarrow> exn option \<times> 'u Service"
where
  "completeRequest env arg s =
     (case arg of
        None \<Rightarrow> (None, resolveRequest arg s)
      | Some t \<Rightarrow>
          if t = requestTrusted s then (None, resolveRequest arg s)
          else (case setWorkspaceTrust env t s of
                  (Some e, s1) \<Rightarrow> (Some e, s1)
                | (None, s1) \<Rightarrow> (None, resolveRequest arg s1)))"

text \<open>
  \<^verbatim>\<open>requestWorkspaceTrust\<close>: the executor of a new promise runs at once and stores the
  resolver, so promise and resolver are set together; the initiate-request event is fired
  only for a new promise.
\<close>

definition requestWorkspaceTrust ::
  "string option \<Rightarrow> 'u Service \<Rightarrow> bool Returned \<times> 'u Service"
where
  "requestWorkspaceTrust opts s =
     (if requestTrusted s then (Fulfilled (requestTrusted s), s)
      else (case modalTrustRequestPromise s of
              None \<Rightarrow>
                (let p = length (promises s);
                     s1 = s\<lparr>promises := promises s @ [None],
                            modalTrustRequestResolver := Some p,
                            modalTrustRequestPromise := Some p\<rparr>;
                     s2 = fire (DidInitiateWorkspaceTrustRequest opts) s1
                 in (Follows p, s2))
            | Some p \<Rightarrow> (Follows p, s)))"

section \<open>A concrete instance for examples\<close>

text \<open>
  Absolute POSIX paths as URIs of the \<^verbatim>\<open>file\<close> scheme, compared case-sensitively:
  \<open>p\<close> is equal to or a parent of \<open>u\<close> when \<open>u\<close> is \<open>p\<close> or continues \<open>p\<close> after
  a separator. Used only to evaluate the services on concrete inputs.
\<close>

definition posixDirname :: "string \<Rightarrow> string" where
  "posixDirname p =
     (let d = rev (drop 1 (dropWhile (\<lambda>c. c \<noteq> CHR ''/'') (rev p)))
      in if d = [] then ''/'' else d)"

definition posixOps :: "string UriOps" where
  "posixOps =
     \<lparr>isEqual = (\<lambda>a b. a = b),
      isEqualOrParent = (\<lambda>u p. u = p \<or>
         (p \<noteq> [] \<and> (if last p = CHR ''/'' then take (length p) u = p
                      else take (length p + 1) u = p @ ''/''))),
      removeTrailingPathSeparator =
         (\<lambda>u. if 1 < length u \<and> last u = CHR ''/'' then butlast u else u),
      fsPath = (\<lambda>u. u),
      scheme = (\<lambda>u. ''file''),
      uriFile = (\<lambda>p. p),
      parentPath = posixDirname,
      revive = (\<lambda>u. u)\<rparr>"

text \<open>A desktop window on the single folder \<^verbatim>\<open>/proj\<close> with workspace trust enabled.\<close>

definition projEnv :: "string Environment" where
  "projEnv =
     \<lparr>uriOps = posixOps, isWeb = False, userValue = None, defaultValue = Some True,
      extensionTestsLocationURI = None, remoteAuthority = None, workbenchState = FOLDER,
      folders = [''/proj''], configuration = None, isUntitledWorkspace = (\<lambda>u. False),
      workspaceIdentifier = SingleFolderWorkspaceIdentifier ''/proj'',
      getCanonicalURI = (\<lambda>u. Inr u)\<rparr>"

text \<open>A freshly constructed pair of services: nothing stored, nothing registered.\<close>

definition freshService :: "string Service" where
  "freshService =
     \<lparr>uriTrustInfo = [], remoteAuthorityResult = None, mementoIsTrusted = None,
      mementoAcceptsOutOfWorkspaceFiles = None, participants = [], storage = None,
      requestTrusted = False, modalTrustRequestPromise = None,
      modalTrustRequestResolver = None, promises = [], trace = []\<rparr>"

section \<open>Auxiliary facts\<close>

lemma participate_loop_eq:
  "participate_loop t ps s =
     (case find (\<lambda>p. participate p t \<noteq> None) ps of
        None \<Rightarrow> (None, s\<lparr>trace := trace s @ map (\<lambda>p. Participate (label p) t) ps\<rparr>)
      | Some p \<Rightarrow>
          (participate p t,
           s\<lparr>trace := trace s @ map (\<lambda>p. Participate (label p) t)
                                    (takeWhile (\<lambda>p. participate p t = None) ps @ [p])\<rparr>))"
  by (induction ps arbitrary: s) (auto simp: fire_def split: option.splits)

lemma canonicalAll_local:
  "\<not> hasRemoteAuthority env \<Longrightarrow> canonicalAll env s us = Inr us"
  by (induction us) (simp_all add: getCanonicalUri_def)

lemma getWorkspaceUris_local:
  "\<not> hasRemoteAuthority env \<Longrightarrow>
   getWorkspaceUris env s =
     Inr (folders env @ (case configuration env of
                           None \<Rightarrow> []
                         | Some c \<Rightarrow> if isUntitledWorkspace env c then [] else [c]))"
  by (simp add: getWorkspaceUris_def canonicalAll_local getCanonicalUri_def split: option.splits)

lemma getUrisTrust_all:
  "getUrisTrust ops entries us = (\<forall>u\<in>set us. trusted (getUriTrustInfo ops entries u))"
  by (induction us) auto

lemma calculateWorkspaceTrust_total:
  "\<exists>t. calculateWorkspaceTrust env s = Inr t"
  by (auto simp: calculateWorkspaceTrust_def getWorkspaceUris_local)

lemma participate_loop_frame2:
  "snd (participate_loop t ps s) = s\<lparr>trace := trace (snd (participate_loop t ps s))\<rparr>"
  unfolding participate_loop_eq by (auto split: option.splits)

lemma updateWorkspaceTrust_frame:
  "snd (updateWorkspaceTrust env arg s) =
      s\<lparr>mementoIsTrusted := mementoIsTrusted (snd (updateWorkspaceTrust env arg s)),
        mementoAcceptsOutOfWorkspaceFiles :=
          mementoAcceptsOutOfWorkspaceFiles (snd (updateWorkspaceTrust env arg s)),
        requestTrusted := requestTrusted (snd (updateWorkspaceTrust env arg s)),
        trace := trace (snd (updateWorkspaceTrust env arg s))\<rparr>"
  unfolding updateWorkspaceTrust_def WorkspaceTrustTransitionManager_participate_def participate_loop_eq
  by (auto simp: set_isTrusted_def saveMemento_def fire_def fireDidChangeTrust_def Let_def split: sum.splits option.splits prod.splits)

lemma updateWorkspaceTrust_keeps:
  "uriTrustInfo (snd (updateWorkspaceTrust env arg s)) = uriTrustInfo s"
  "storage (snd (updateWorkspaceTrust env arg s)) = storage s"
  "participants (snd (updateWorkspaceTrust env arg s)) = participants s"
  "remoteAuthorityResult (snd (updateWorkspaceTrust env arg s)) = remoteAuthorityResult s"
  "promises (snd (updateWorkspaceTrust env arg s)) = promises s"
  "modalTrustRequestPromise (snd (updateWorkspaceTrust env arg s)) = modalTrustRequestPromise s"
  "modalTrustRequestResolver (snd (updateWorkspaceTrust env arg s)) = modalTrustRequestResolver s"
  by (subst updateWorkspaceTrust_frame, simp)+

lemma saveTrustInfo_entries:
  "uriTrustInfo (snd (saveTrustInfo env s)) = uriTrustInfo s"
  by (simp add: saveTrustInfo_def Let_def updateWorkspaceTrust_keeps fire_def)

lemma setUrisTrust_entries:
  "uriTrustInfo (snd (setUrisTrust env uris t s)) =
     fst (setUrisTrust_loop (uriOps env) t uris (uriTrustInfo s, False))"
  by (simp add: setUrisTrust_def saveTrustInfo_entries split: prod.splits)


lemma getUriTrustInfo_loop_char:
  "(\<exists>xs e ys. es = xs @ e # ys \<and> isEqualOrParent ops u (uri e)
        \<and> ml < int (length (fsPath ops (uri e)))
        \<and> (\<forall>x\<in>set xs. isEqualOrParent ops u (uri x)
              \<longrightarrow> length (fsPath ops (uri x)) < length (fsPath ops (uri e)))
        \<and> (\<forall>y\<in>set ys. isEqualOrParent ops u (uri y)
              \<longrightarrow> length (fsPath ops (uri y)) \<le> length (fsPath ops (uri e)))
        \<and> getUriTrustInfo_loop ops u es (rs, ml, ru)
            = (trusted e, int (length (fsPath ops (uri e))), uri e))
   \<or> ((\<forall>e\<in>set es. isEqualOrParent ops u (uri e) \<longrightarrow> int (length (fsPath ops (uri e))) \<le> ml)
       \<and> getUriTrustInfo_loop ops u es (rs, ml, ru) = (rs, ml, ru))"
  (is "?hit es rs ml ru \<or> ?miss es rs ml ru")
proof (induction es arbitrary: rs ml ru)
  case Nil
  show ?case by simp
next
  case (Cons a es)
  let ?la = "int (length (fsPath ops (uri a)))"
  show ?case
  proof (cases "isEqualOrParent ops u (uri a) \<and> ml < ?la")
    case True
    then have step: "getUriTrustInfo_loop ops u (a # es) (rs, ml, ru)
                     = getUriTrustInfo_loop ops u es (trusted a, ?la, uri a)"
      by simp
    from Cons.IH [where rs = "trusted a" and ml = ?la and ru = "uri a"] show ?thesis
    proof
      assume "?hit es (trusted a) ?la (uri a)"
      then obtain xs e ys where h: "es = xs @ e # ys" "isEqualOrParent ops u (uri e)"
          "?la < int (length (fsPath ops (uri e)))"
          "\<forall>x\<in>set xs. isEqualOrParent ops u (uri x)
              \<longrightarrow> length (fsPath ops (uri x)) < length (fsPath ops (uri e))"
          "\<forall>y\<in>set ys. isEqualOrParent ops u (uri y)
              \<longrightarrow> length (fsPath ops (uri y)) \<le> length (fsPath ops (uri e))"
          "getUriTrustInfo_loop ops u es (trusted a, ?la, uri a)
            = (trusted e, int (length (fsPath ops (uri e))), uri e)"
        by blast
      have "a # es = (a # xs) @ e # ys" using h(1) by simp
      moreover have "ml < int (length (fsPath ops (uri e)))" using True h(3) by linarith
      moreover have "\<forall>x\<in>set (a # xs). isEqualOrParent ops u (uri x)
              \<longrightarrow> length (fsPath ops (uri x)) < length (fsPath ops (uri e))"
        using h(3,4) by simp
      ultimately have "?hit (a # es) rs ml ru" using h(2,5,6) step by metis
      then show ?thesis ..
    next
      assume m: "?miss es (trusted a) ?la (uri a)"
      have "a # es = [] @ a # es" by simp
      moreover have "\<forall>x\<in>set []. isEqualOrParent ops u (uri x)
              \<longrightarrow> length (fsPath ops (uri x)) < length (fsPath ops (uri a))" by simp
      moreover have "\<forall>y\<in>set es. isEqualOrParent ops u (uri y)
              \<longrightarrow> length (fsPath ops (uri y)) \<le> length (fsPath ops (uri a))"
        using m by simp
      moreover have "getUriTrustInfo_loop ops u (a # es) (rs, ml, ru) = (trusted a, ?la, uri a)"
        using m step by simp
      ultimately have "?hit (a # es) rs ml ru" using True by metis
      then show ?thesis ..
    qed
  next
    case False
    then have step: "getUriTrustInfo_loop ops u (a # es) (rs, ml, ru)
                     = getUriTrustInfo_loop ops u es (rs, ml, ru)"
      by auto
    from Cons.IH [where rs = rs and ml = ml and ru = ru] show ?thesis
    proof
      assume "?hit es rs ml ru"
      then obtain xs e ys where h: "es = xs @ e # ys" "isEqualOrParent ops u (uri e)"
          "ml < int (length (fsPath ops (uri e)))"
          "\<forall>x\<in>set xs. isEqualOrParent ops u (uri x)
              \<longrightarrow> length (fsPath ops (uri x)) < length (fsPath ops (uri e))"
          "\<forall>y\<in>set ys. isEqualOrParent ops u (uri y)
              \<longrightarrow> length (fsPath ops (uri y)) \<le> length (fsPath ops (uri e))"
          "getUriTrustInfo_loop ops u es (rs, ml, ru)
            = (trusted e, int (length (fsPath ops (uri e))), uri e)"
        by blast
      have "a # es = (a # xs) @ e # ys" using h(1) by simp
      moreover have "\<forall>x\<in>set (a # xs). isEqualOrParent ops u (uri x)
              \<longrightarrow> length (fsPath ops (uri x)) < length (fsPath ops (uri e))"
        using h(3,4) False by auto
      ultimately have "?hit (a # es) rs ml ru" using h(2,3,5,6) step by metis
      then show ?thesis ..
    next
      assume "?miss es rs ml ru"
      then have "?miss (a # es) rs ml ru" using False step by auto
      then show ?thesis ..
    qed
  qed
qed

lemma getUriTrustInfo_none:
  assumes "\<forall>e\<in>set entries. \<not> isEqualOrParent ops u (uri e)"
  shows "getUriTrustInfo ops entries u = \<lparr>uri = u, trusted = False\<rparr>"
proof -
  have "getUriTrustInfo_loop ops u entries (False, - 1, u) = (False, - 1, u)"
    using getUriTrustInfo_loop_char [of entries ops u "- 1" False u] assms by auto
  then show ?thesis by (simp add: getUriTrustInfo_def)
qed

lemma getUriTrustInfo_some:
  assumes "\<exists>e\<in>set entries. isEqualOrParent ops u (uri e)"
  shows "\<exists>xs e ys. entries = xs @ e # ys \<and> isEqualOrParent ops u (uri e)
        \<and> (\<forall>x\<in>set xs. isEqualOrParent ops u (uri x)
              \<longrightarrow> length (fsPath ops (uri x)) < length (fsPath ops (uri e)))
        \<and> (\<forall>y\<in>set ys. isEqualOrParent ops u (uri y)
              \<longrightarrow> length (fsPath ops (uri y)) \<le> length (fsPath ops (uri e)))
        \<and> getUriTrustInfo ops entries u = e"
proof -
  from getUriTrustInfo_loop_char [of entries ops u "- 1" False u] assms
  obtain xs e ys where h: "entries = xs @ e # ys" "isEqualOrParent ops u (uri e)"
          "\<forall>x\<in>set xs. isEqualOrParent ops u (uri x)
              \<longrightarrow> length (fsPath ops (uri x)) < length (fsPath ops (uri e))"
          "\<forall>y\<in>set ys. isEqualOrParent ops u (uri y)
              \<longrightarrow> length (fsPath ops (uri y)) \<le> length (fsPath ops (uri e))"
          "getUriTrustInfo_loop ops u entries (False, - 1, u)
            = (trusted e, int (length (fsPath ops (uri e))), uri e)"
    by fastforce
  from h(5) have "getUriTrustInfo ops entries u = e" by (simp add: getUriTrustInfo_def)
  with h(1-4) show ?thesis by blast
qed

lemma getUriTrustInfo_unique_longest:
  assumes a: "\<lparr>uri = a, trusted = True\<rparr> \<in> set entries" "isEqualOrParent ops u a"
    and l: "\<forall>e\<in>set entries. isEqualOrParent ops u (uri e) \<and> e \<noteq> \<lparr>uri = a, trusted = True\<rparr>
              \<longrightarrow> length (fsPath ops (uri e)) < length (fsPath ops a)"
  shows "getUriTrustInfo ops entries u = \<lparr>uri = a, trusted = True\<rparr>"
proof -
  let ?A = "\<lparr>uri = a, trusted = True\<rparr>"
  have "\<exists>e\<in>set entries. isEqualOrParent ops u (uri e)" using a by force
  from getUriTrustInfo_some [OF this]
  obtain xs e ys where h: "entries = xs @ e # ys" "isEqualOrParent ops u (uri e)"
          "\<forall>x\<in>set xs. isEqualOrParent ops u (uri x)
              \<longrightarrow> length (fsPath ops (uri x)) < length (fsPath ops (uri e))"
          "\<forall>y\<in>set ys. isEqualOrParent ops u (uri y)
              \<longrightarrow> length (fsPath ops (uri y)) \<le> length (fsPath ops (uri e))"
          "getUriTrustInfo ops entries u = e"
    by blast
  have le: "length (fsPath ops a) \<le> length (fsPath ops (uri e))"
  proof -
    from a(1) h(1) consider "?A \<in> set xs" | "?A = e" | "?A \<in> set ys" by auto
    then show ?thesis
    proof cases
      case 1 with h(3) a(2) show ?thesis by force
    next
      case 2 then show ?thesis by auto
    next
      case 3 with h(4) a(2) show ?thesis by force
    qed
  qed
  have "e = ?A"
  proof (rule ccontr)
    assume "e \<noteq> ?A"
    moreover have "e \<in> set entries" using h(1) by simp
    ultimately have "length (fsPath ops (uri e)) < length (fsPath ops a)" using l h(2) by blast
    with le show False by simp
  qed
  with h(5) show ?thesis by simp
qed

lemma add_then_remove_restores:
  assumes "isEqual (uriOps env) b b"
    and "\<forall>e\<in>set (uriTrustInfo s). \<not> isEqual (uriOps env) (uri e) b"
  shows "uriTrustInfo (snd (setUrisTrust env [b] False (snd (setUrisTrust env [b] True s))))
         = uriTrustInfo s"
proof -
  have f: "find (\<lambda>trustInfo. isEqual (uriOps env) (uri trustInfo) b) (uriTrustInfo s) = None"
    using assms(2) by (simp add: find_None_iff)
  have add: "uriTrustInfo (snd (setUrisTrust env [b] True s))
             = uriTrustInfo s @ [\<lparr>uri = b, trusted = True\<rparr>]"
    by (simp add: setUrisTrust_entries f)
  have flt: "filter (\<lambda>trustInfo. \<not> isEqual (uriOps env) (uri trustInfo) b) (uriTrustInfo s)
             = uriTrustInfo s"
    using assms(2) by (simp add: filter_id_conv)
  have "uriTrustInfo (snd (setUrisTrust env [b] False (snd (setUrisTrust env [b] True s))))
        = fst (setUrisTrust_loop (uriOps env) False [b]
                 (uriTrustInfo (snd (setUrisTrust env [b] True s)), False))"
    by (rule setUrisTrust_entries)
  also have "\<dots> = fst (setUrisTrust_loop (uriOps env) False [b]
                 (uriTrustInfo s @ [\<lparr>uri = b, trusted = True\<rparr>], False))"
    by (simp only: add)
  also have "\<dots> = uriTrustInfo s"
    by (simp add: flt assms(1) Let_def)
  finally show ?thesis .
qed

section \<open>Longest-ancestor lookup\<close>

text \<open>
  Claim C2. For every list of trusted entries and every URI \<open>u\<close>: when no entry is equal
  to or a parent of \<open>u\<close>, \<open>getUriTrustInfo\<close> returns \<open>u\<close> itself, untrusted. Otherwise it
  returns the flag and the URI of an entry that is equal to or a parent of \<open>u\<close> and whose
  \<open>fsPath\<close> is as long as that of any other such entry (strictly longer than those of the
  entries listed before it). So an entry for \<open>a\<close> that is the longest one above \<open>u\<close>
  answers for \<open>u\<close>; and trusting a URI \<open>b\<close> that has no entry (with \<open>b\<close> equal to
  itself under \<open>isEqual\<close>) and then removing it again restores the entries, and with them
  every lookup.
\<close>

theorem getUriTrustInfo_longest_ancestor:
  "((\<forall>e\<in>set entries. \<not> isEqualOrParent ops u (uri e))
      \<longrightarrow> getUriTrustInfo ops entries u = \<lparr>uri = u, trusted = False\<rparr>)
   \<and> ((\<exists>e\<in>set entries. isEqualOrParent ops u (uri e))
      \<longrightarrow> (\<exists>xs e ys. entries = xs @ e # ys \<and> isEqualOrParent ops u (uri e)
            \<and> (\<forall>x\<in>set xs. isEqualOrParent ops u (uri x)
                  \<longrightarrow> length (fsPath ops (uri x)) < length (fsPath ops (uri e)))
            \<and> (\<forall>y\<in>set ys. isEqualOrParent ops u (uri y)
                  \<longrightarrow> length (fsPath ops (uri y)) \<le> length (fsPath ops (uri e)))
            \<and> getUriTrustInfo ops entries u = \<lparr>uri = uri e, trusted = trusted e\<rparr>))
   \<and> (\<lparr>uri = a, trusted = True\<rparr> \<in> set entries \<and> isEqualOrParent ops u a
       \<and> (\<forall>e\<in>set entries. isEqualOrParent ops u (uri e) \<and> e \<noteq> \<lparr>uri = a, trusted = True\<rparr>
              \<longrightarrow> length (fsPath ops (uri e)) < length (fsPath ops a))
      \<longrightarrow> getUriTrustInfo ops entries u = \<lparr>uri = a, trusted = True\<rparr>)
   \<and> (isEqual (uriOps env) b b \<and> (\<forall>e\<in>set (uriTrustInfo s). \<not> isEqual (uriOps env) (uri e) b)
      \<longrightarrow> uriTrustInfo (snd (setUrisTrust env [b] False (snd (setUrisTrust env [b] True s))))
            = uriTrustInfo s
          \<and> getUriTrustInfo (uriOps env)
              (uriTrustInfo (snd (setUrisTrust env [b] False (snd (setUrisTrust env [b] True s)))))
              u
            = getUriTrustInfo (uriOps env) (uriTrustInfo s) u)"
proof (intro conjI impI)
  assume "\<forall>e\<in>set entries. \<not> isEqualOrParent ops u (uri e)"
  then show "getUriTrustInfo ops entries u = \<lparr>uri = u, trusted = False\<rparr>"
    by (rule getUriTrustInfo_none)
next
  assume "\<exists>e\<in>set entries. isEqualOrParent ops u (uri e)"
  from getUriTrustInfo_some [OF this]
  show "\<exists>xs e ys. entries = xs @ e # ys \<and> isEqualOrParent ops u (uri e)
            \<and> (\<forall>x\<in>set xs. isEqualOrParent ops u (uri x)
                  \<longrightarrow> length (fsPath ops (uri x)) < length (fsPath ops (uri e)))
            \<and> (\<forall>y\<in>set ys. isEqualOrParent ops u (uri y)
                  \<longrightarrow> length (fsPath ops (uri y)) \<le> length (fsPath ops (uri e)))
            \<and> getUriTrustInfo ops entries u = \<lparr>uri = uri e, trusted = trusted e\<rparr>"
    by fastforce
next
  assume "\<lparr>uri = a, trusted = True\<rparr> \<in> set entries \<and> isEqualOrParent ops u a
       \<and> (\<forall>e\<in>set entries. isEqualOrParent ops u (uri e) \<and> e \<noteq> \<lparr>uri = a, trusted = True\<rparr>
              \<longrightarrow> length (fsPath ops (uri e)) < length (fsPath ops a))"
  then show "getUriTrustInfo ops entries u = \<lparr>uri = a, trusted = True\<rparr>"
    using getUriTrustInfo_unique_longest [of a entries ops u] by blast
next
  assume h: "isEqual (uriOps env) b b
      \<and> (\<forall>e\<in>set (uriTrustInfo s). \<not> isEqual (uriOps env) (uri e) b)"
  then show r: "uriTrustInfo (snd (setUrisTrust env [b] False (snd (setUrisTrust env [b] True s))))
            = uriTrustInfo s"
    using add_then_remove_restores [of env b s] by blast
  show "getUriTrustInfo (uriOps env)
              (uriTrustInfo (snd (setUrisTrust env [b] False (snd (setUrisTrust env [b] True s)))))
              u
            = getUriTrustInfo (uriOps env) (uriTrustInfo s) u"
    by (simp only: r)
qed

theorem getUriTrustInfo_longest_ancestor_witness:
  "getUriTrustInfo posixOps [] ''/a/b/c'' = \<lparr>uri = ''/a/b/c'', trusted = False\<rparr>
   \<and> getUriTrustInfo posixOps [\<lparr>uri = ''/a'', trusted = True\<rparr>] ''/a/b/c''
       = \<lparr>uri = ''/a'', trusted = True\<rparr>
   \<and> getUriTrustInfo posixOps
       (uriTrustInfo (snd (setUrisTrust projEnv [''/a/b''] True
          (freshService\<lparr>uriTrustInfo := [\<lparr>uri = ''/a'', trusted = True\<rparr>]\<rparr>)))) ''/a/b/c''
       = \<lparr>uri = ''/a/b'', trusted = True\<rparr>
   \<and> getUriTrustInfo posixOps
       (uriTrustInfo (snd (setUrisTrust projEnv [''/a/b''] False
          (snd (setUrisTrust projEnv [''/a/b''] True
             (freshService\<lparr>uriTrustInfo := [\<lparr>uri = ''/a'', trusted = True\<rparr>]\<rparr>)))))) ''/a/b/c''
       = \<lparr>uri = ''/a'', trusted = True\<rparr>"
proof -
  let ?A = "\<lparr>uri = ''/a'', trusted = True\<rparr> :: string IWorkspaceTrustUriInfo"
  let ?s = "freshService\<lparr>uriTrustInfo := [?A]\<rparr>"
  have ops: "uriOps projEnv = posixOps" by (simp add: projEnv_def)
  have none: "\<forall>e\<in>set ([] :: string IWorkspaceTrustUriInfo list).
                 \<not> isEqualOrParent posixOps ''/a/b/c'' (uri e)"
    by simp
  have 1: "getUriTrustInfo posixOps [] ''/a/b/c'' = \<lparr>uri = ''/a/b/c'', trusted = False\<rparr>"
    using getUriTrustInfo_longest_ancestor
            [where entries = "[]" and ops = posixOps and u = "''/a/b/c''"] none
    by blast
  have hyp3: "?A \<in> set [?A] \<and> isEqualOrParent posixOps ''/a/b/c'' ''/a''
       \<and> (\<forall>e\<in>set [?A]. isEqualOrParent posixOps ''/a/b/c'' (uri e) \<and> e \<noteq> ?A
              \<longrightarrow> length (fsPath posixOps (uri e)) < length (fsPath posixOps ''/a''))"
    by (simp add: posixOps_def)
  have hyp4: "isEqual (uriOps projEnv) ''/a/b'' ''/a/b''
      \<and> (\<forall>e\<in>set (uriTrustInfo ?s). \<not> isEqual (uriOps projEnv) (uri e) ''/a/b'')"
    by (simp add: ops posixOps_def freshService_def)
  note T = getUriTrustInfo_longest_ancestor
            [where entries = "[?A]" and ops = posixOps and u = "''/a/b/c''" and a = "''/a''"
               and env = projEnv and b = "''/a/b''" and s = ?s]
  have hyp2: "\<exists>e\<in>set [?A]. isEqualOrParent posixOps ''/a/b/c'' (uri e)"
    by (simp add: posixOps_def)
  from T hyp2 obtain xs e ys where d: "[?A] = xs @ e # ys"
      "getUriTrustInfo posixOps [?A] ''/a/b/c'' = \<lparr>uri = uri e, trusted = trusted e\<rparr>"
    by blast
  from d(1) have "e = ?A" by (cases xs) simp_all
  with d(2) have 2: "getUriTrustInfo posixOps [?A] ''/a/b/c'' = ?A" by simp
  have "getUriTrustInfo posixOps [?A] ''/a/b/c'' = ?A"
    using T hyp3 by blast
  have 4: "getUriTrustInfo posixOps
       (uriTrustInfo (snd (setUrisTrust projEnv [''/a/b''] False
          (snd (setUrisTrust projEnv [''/a/b''] True ?s))))) ''/a/b/c'' = ?A"
    using T hyp4 2 by (simp add: ops freshService_def)
  have 3: "getUriTrustInfo posixOps
       (uriTrustInfo (snd (setUrisTrust projEnv [''/a/b''] True ?s))) ''/a/b/c''
       = \<lparr>uri = ''/a/b'', trusted = True\<rparr>"
    by (simp add: setUrisTrust_entries ops posixOps_def freshService_def getUriTrustInfo_def)
  from 1 2 3 4 show ?thesis by blast
qed

section \<open>The decision table of the trust calculation\<close>

text \<open>
  Claim C1. For every context, \<open>calculateWorkspaceTrust\<close> resolves (it never rejects) with
  the first matching row of this table: trust disabled gives true; an extension test host
  gives true; a remote workspace gives the \<^verbatim>\<open>isTrusted\<close> flag of the resolved authority,
  and false while the resolution is pending or when the flag is absent; an empty workspace
  gives the \<^verbatim>\<open>isTrusted\<close> memento, false when unset; otherwise the result is true exactly
  when every canonicalized workspace folder URI, and the workspace configuration URI when
  there is one and it is not untitled, has \<open>trusted = True\<close> under \<open>getUriTrustInfo\<close>.
\<close>

theorem calculateWorkspaceTrust_decision_table:
  "calculateWorkspaceTrust env s =
     Inr (if \<not> isWorkspaceTrustEnabled env then True
          else if extensionTestsLocationURI env \<noteq> None then True
          else if hasRemoteAuthority env then
            (case remoteAuthorityResult s of
               None \<Rightarrow> False
             | Some (ResolverResult None) \<Rightarrow> False
             | Some (ResolverResult (Some (ResolvedOptions None))) \<Rightarrow> False
             | Some (ResolverResult (Some (ResolvedOptions (Some b)))) \<Rightarrow> b)
          else if workbenchState env = EMPTY then
            (case mementoIsTrusted s of None \<Rightarrow> False | Some b \<Rightarrow> b)
          else (\<forall>u\<in>set (folders env @
                          (case configuration env of
                             None \<Rightarrow> []
                           | Some c \<Rightarrow> if isUntitledWorkspace env c then [] else [c])).
                  \<exists>c. getCanonicalUri env s u = Inr c
                      \<and> trusted (getUriTrustInfo (uriOps env) (uriTrustInfo s) c)))"
proof -
  have remote: "(case remoteIsTrusted r of Some b \<Rightarrow> b | None \<Rightarrow> False) =
            (case r of
               None \<Rightarrow> False
             | Some (ResolverResult None) \<Rightarrow> False
             | Some (ResolverResult (Some (ResolvedOptions None))) \<Rightarrow> False
             | Some (ResolverResult (Some (ResolvedOptions (Some b)))) \<Rightarrow> b)" for r
    by (cases r rule: remoteIsTrusted.cases) (simp_all split: option.splits)
  show ?thesis
    by (simp add: calculateWorkspaceTrust_def remote get_isTrusted_def getWorkspaceUris_local
          getUrisTrust_all getCanonicalUri_def)
qed

theorem calculateWorkspaceTrust_decision_table_witness:
  "calculateWorkspaceTrust (projEnv\<lparr>isWeb := True\<rparr>) freshService = Inr True
   \<and> calculateWorkspaceTrust (projEnv\<lparr>extensionTestsLocationURI := Some ''/tests''\<rparr>)
         freshService = Inr True
   \<and> calculateWorkspaceTrust (projEnv\<lparr>remoteAuthority := Some ''ssh-remote+host''\<rparr>)
         freshService = Inr False
   \<and> calculateWorkspaceTrust (projEnv\<lparr>remoteAuthority := Some ''ssh-remote+host''\<rparr>)
         (freshService\<lparr>remoteAuthorityResult :=
             Some (ResolverResult (Some (ResolvedOptions (Some True))))\<rparr>) = Inr True
   \<and> calculateWorkspaceTrust (projEnv\<lparr>workbenchState := EMPTY, folders := []\<rparr>)
         freshService = Inr False
   \<and> calculateWorkspaceTrust (projEnv\<lparr>workbenchState := EMPTY, folders := []\<rparr>)
         (freshService\<lparr>mementoIsTrusted := Some True\<rparr>) = Inr True
   \<and> calculateWorkspaceTrust projEnv
         (freshService\<lparr>uriTrustInfo := [\<lparr>uri = ''/proj'', trusted = True\<rparr>]\<rparr>) = Inr True
   \<and> calculateWorkspaceTrust (projEnv\<lparr>configuration := Some ''/ws/my.code-workspace''\<rparr>)
         (freshService\<lparr>uriTrustInfo := [\<lparr>uri = ''/proj'', trusted = True\<rparr>]\<rparr>) = Inr False"
  using
    calculateWorkspaceTrust_decision_table [of "projEnv\<lparr>isWeb := True\<rparr>" freshService]
    calculateWorkspaceTrust_decision_table
      [of "projEnv\<lparr>extensionTestsLocationURI := Some ''/tests''\<rparr>" freshService]
    calculateWorkspaceTrust_decision_table
      [of "projEnv\<lparr>remoteAuthority := Some ''ssh-remote+host''\<rparr>" freshService]
    calculateWorkspaceTrust_decision_table
      [of "projEnv\<lparr>remoteAuthority := Some ''ssh-remote+host''\<rparr>"
          "freshService\<lparr>remoteAuthorityResult :=
             Some (ResolverResult (Some (ResolvedOptions (Some True))))\<rparr>"]
    calculateWorkspaceTrust_decision_table
      [of "projEnv\<lparr>workbenchState := EMPTY, folders := []\<rparr>" freshService]
    calculateWorkspaceTrust_decision_table
      [of "projEnv\<lparr>workbenchState := EMPTY, folders := []\<rparr>"
          "freshService\<lparr>mementoIsTrusted := Some True\<rparr>"]
    calculateWorkspaceTrust_decision_table
      [of projEnv "freshService\<lparr>uriTrustInfo := [\<lparr>uri = ''/proj'', trusted = True\<rparr>]\<rparr>"]
    calculateWorkspaceTrust_decision_table
      [of "projEnv\<lparr>configuration := Some ''/ws/my.code-workspace''\<rparr>"
          "freshService\<lparr>uriTrustInfo := [\<lparr>uri = ''/proj'', trusted = True\<rparr>]\<rparr>"]
  by (simp add: projEnv_def freshService_def isWorkspaceTrustEnabled_def hasRemoteAuthority_def
        posixOps_def getUriTrustInfo_def getCanonicalUri_def)

section \<open>Transition participants\<close>

lemma participate_all_resolve:
  assumes "\<forall>q\<in>set ps. participate q t = None"
  shows "participate_loop t ps s
         = (None, s\<lparr>trace := trace s @ map (\<lambda>q. Participate (label q) t) ps\<rparr>)"
proof -
  have "find (\<lambda>p. participate p t \<noteq> None) ps = None"
    using assms by (simp add: find_None_iff)
  then show ?thesis by (simp add: participate_loop_eq)
qed

lemma participate_first_reject:
  assumes "ps = before @ q # after" "\<forall>x\<in>set before. participate x t = None"
    "participate q t = Some e"
  shows "participate_loop t ps s
         = (Some e, s\<lparr>trace := trace s @ map (\<lambda>q. Participate (label q) t) (before @ [q])\<rparr>)"
  using assms(2) unfolding assms(1)
proof (induction before arbitrary: s)
  case Nil
  then show ?case using assms(3) by (simp add: fire_def)
next
  case (Cons a before)
  then show ?case by (simp add: fire_def)
qed

lemma updateWorkspaceTrust_reject:
  assumes nv: "(case arg of None \<Rightarrow> calculateWorkspaceTrust env s | Some b \<Rightarrow> Inr b) = Inr t"
    and ch: "isWorkpaceTrusted s \<noteq> t"
    and ps: "participants s = before @ q # after" "\<forall>x\<in>set before. participate x t = None"
      "participate q t = Some e"
  shows "updateWorkspaceTrust env arg s
         = (Some e, (set_isTrusted (Some t) s)
              \<lparr>trace := trace s
                 @ [SaveMemento (Some t)
                      (if t then mementoAcceptsOutOfWorkspaceFiles s else Some False)]
                 @ map (\<lambda>q. Participate (label q) t) (before @ [q])\<rparr>)"
proof -
  let ?s1 = "set_isTrusted (Some t) s"
  have p1: "participants ?s1 = before @ q # after"
    using ps(1) by (simp add: set_isTrusted_def saveMemento_def fire_def Let_def)
  have tr: "trace ?s1 = trace s @ [SaveMemento (Some t)
                      (if t then mementoAcceptsOutOfWorkspaceFiles s else Some False)]"
    by (simp add: set_isTrusted_def saveMemento_def fire_def Let_def)
  have "WorkspaceTrustTransitionManager_participate t ?s1
        = (Some e, ?s1\<lparr>trace := trace ?s1 @ map (\<lambda>q. Participate (label q) t) (before @ [q])\<rparr>)"
    unfolding WorkspaceTrustTransitionManager_participate_def
    by (rule participate_first_reject [OF p1 ps(2) ps(3)])
  then show ?thesis
    using nv ch by (simp add: updateWorkspaceTrust_def tr)
qed

lemma updateWorkspaceTrust_rejected_by:
  assumes "fst (updateWorkspaceTrust env arg s) = Some e"
  shows "\<exists>t before q after.
           (case arg of None \<Rightarrow> calculateWorkspaceTrust env s | Some b \<Rightarrow> Inr b) = Inr t
           \<and> isWorkpaceTrusted s \<noteq> t
           \<and> participants s = before @ q # after
           \<and> (\<forall>x\<in>set before. participate x t = None)
           \<and> participate q t = Some e"
proof -
  obtain t where nv: "(case arg of None \<Rightarrow> calculateWorkspaceTrust env s | Some b \<Rightarrow> Inr b) = Inr t"
    using calculateWorkspaceTrust_total [of env s] by (cases arg) auto
  have ch: "isWorkpaceTrusted s \<noteq> t"
    using assms nv by (auto simp: updateWorkspaceTrust_def split: if_splits)
  let ?s1 = "set_isTrusted (Some t) s"
  have p1: "participants ?s1 = participants s"
    by (simp add: set_isTrusted_def saveMemento_def fire_def Let_def)
  have "fst (participate_loop t (participants s) ?s1) = Some e"
    using assms nv ch
    by (auto simp: updateWorkspaceTrust_def WorkspaceTrustTransitionManager_participate_def p1
          split: prod.splits option.splits)
  then obtain q where f: "find (\<lambda>p. participate p t \<noteq> None) (participants s) = Some q"
      and e: "participate q t = Some e"
    by (auto simp: participate_loop_eq split: option.splits)
  from f obtain i where i: "i < length (participants s)" "participate (participants s ! i) t \<noteq> None"
     "q = participants s ! i" "\<forall>j<i. \<not> participate (participants s ! j) t \<noteq> None"
    by (auto simp: find_Some_iff)
  have "participants s = take i (participants s) @ q # drop (Suc i) (participants s)"
    using i(1,3) by (simp add: id_take_nth_drop)
  moreover have "\<forall>x\<in>set (take i (participants s)). participate x t = None"
    using i(1,4) by (auto simp: in_set_conv_nth)
  ultimately show ?thesis using nv ch e by blast
qed

lemma updateWorkspaceTrust_all_resolve:
  assumes nv: "(case arg of None \<Rightarrow> calculateWorkspaceTrust env s | Some b \<Rightarrow> Inr b) = Inr t"
    and ch: "isWorkpaceTrusted s \<noteq> t"
    and ps: "\<forall>q\<in>set (participants s). participate q t = None"
  shows "fst (updateWorkspaceTrust env arg s) = None
       \<and> trace (snd (updateWorkspaceTrust env arg s))
         = trace s
           @ [SaveMemento (Some t) (if t then mementoAcceptsOutOfWorkspaceFiles s else Some False)]
           @ map (\<lambda>q. Participate (label q) t) (participants s)
           @ [DidChangeTrust t, ContextKeySet t]"
proof -
  let ?s1 = "set_isTrusted (Some t) s"
  have p1: "participants ?s1 = participants s"
    by (simp add: set_isTrusted_def saveMemento_def fire_def Let_def)
  have tr: "trace ?s1 = trace s @ [SaveMemento (Some t)
                      (if t then mementoAcceptsOutOfWorkspaceFiles s else Some False)]"
    by (simp add: set_isTrusted_def saveMemento_def fire_def Let_def)
  have "WorkspaceTrustTransitionManager_participate t ?s1
        = (None, ?s1\<lparr>trace := trace ?s1 @ map (\<lambda>q. Participate (label q) t) (participants s)\<rparr>)"
    unfolding WorkspaceTrustTransitionManager_participate_def p1
    by (rule participate_all_resolve [OF ps])
  then show ?thesis
    using nv ch by (simp add: updateWorkspaceTrust_def tr fireDidChangeTrust_def fire_def)
qed

text \<open>
  Claim C3. Participants are kept in registration order. A transition invokes them one
  after the other in that order, each having resolved before the next is invoked; when all
  resolve, \<open>onDidChangeTrust\<close> fires after the last one. When a participant rejects, the
  participants registered after it are not invoked, the transition rejects with the same
  reason, and \<open>onDidChangeTrust\<close> is not fired for it.
\<close>

theorem participants_in_order_fail_fast:
  "participants (addWorkspaceTrustTransitionParticipant p s) = participants s @ [p]
   \<and> ((\<forall>x\<in>set (participants s). participate x t = None) \<longrightarrow>
        WorkspaceTrustTransitionManager_participate t s
          = (None, s\<lparr>trace := trace s @ map (\<lambda>x. Participate (label x) t) (participants s)\<rparr>)
        \<and> ((case arg of None \<Rightarrow> calculateWorkspaceTrust env s | Some b \<Rightarrow> Inr b) = Inr t
             \<and> isWorkpaceTrusted s \<noteq> t \<longrightarrow>
            fst (updateWorkspaceTrust env arg s) = None
            \<and> trace (snd (updateWorkspaceTrust env arg s))
              = trace s
                @ [SaveMemento (Some t)
                     (if t then mementoAcceptsOutOfWorkspaceFiles s else Some False)]
                @ map (\<lambda>x. Participate (label x) t) (participants s)
                @ [DidChangeTrust t, ContextKeySet t]))
   \<and> (participants s = before @ q # after \<and> (\<forall>x\<in>set before. participate x t = None)
        \<and> participate q t = Some e \<longrightarrow>
        WorkspaceTrustTransitionManager_participate t s
          = (Some e, s\<lparr>trace := trace s @ map (\<lambda>x. Participate (label x) t) (before @ [q])\<rparr>)
        \<and> ((case arg of None \<Rightarrow> calculateWorkspaceTrust env s | Some b \<Rightarrow> Inr b) = Inr t
             \<and> isWorkpaceTrusted s \<noteq> t \<longrightarrow>
            fst (updateWorkspaceTrust env arg s) = Some e
            \<and> trace (snd (updateWorkspaceTrust env arg s))
              = trace s
                @ [SaveMemento (Some t)
                     (if t then mementoAcceptsOutOfWorkspaceFiles s else Some False)]
                @ map (\<lambda>x. Participate (label x) t) (before @ [q])
            \<and> (\<forall>b. DidChangeTrust b
                     \<notin> set (drop (length (trace s)) (trace (snd (updateWorkspaceTrust env arg s)))))))"
proof (intro conjI impI)
  show "participants (addWorkspaceTrustTransitionParticipant p s) = participants s @ [p]"
    by (simp add: addWorkspaceTrustTransitionParticipant_def)
next
  assume "\<forall>x\<in>set (participants s). participate x t = None"
  then show "WorkspaceTrustTransitionManager_participate t s
          = (None, s\<lparr>trace := trace s @ map (\<lambda>x. Participate (label x) t) (participants s)\<rparr>)"
    unfolding WorkspaceTrustTransitionManager_participate_def
    by (rule participate_all_resolve)
next
  assume a: "\<forall>x\<in>set (participants s). participate x t = None"
    and b: "(case arg of None \<Rightarrow> calculateWorkspaceTrust env s | Some b \<Rightarrow> Inr b) = Inr t
             \<and> isWorkpaceTrusted s \<noteq> t"
  from updateWorkspaceTrust_all_resolve [where arg = arg and env = env and s = s and t = t] a b
  show "fst (updateWorkspaceTrust env arg s) = None" by blast
  from updateWorkspaceTrust_all_resolve [where arg = arg and env = env and s = s and t = t] a b
  show "trace (snd (updateWorkspaceTrust env arg s))
              = trace s
                @ [SaveMemento (Some t)
                     (if t then mementoAcceptsOutOfWorkspaceFiles s else Some False)]
                @ map (\<lambda>x. Participate (label x) t) (participants s)
                @ [DidChangeTrust t, ContextKeySet t]" by blast
next
  assume "participants s = before @ q # after \<and> (\<forall>x\<in>set before. participate x t = None)
        \<and> participate q t = Some e"
  then show "WorkspaceTrustTransitionManager_participate t s
          = (Some e, s\<lparr>trace := trace s @ map (\<lambda>x. Participate (label x) t) (before @ [q])\<rparr>)"
    unfolding WorkspaceTrustTransitionManager_participate_def
    using participate_first_reject [where ps = "participants s" and before = before and q = q
            and after = after and t = t and e = e and s = s] by blast
next
  assume a: "participants s = before @ q # after \<and> (\<forall>x\<in>set before. participate x t = None)
        \<and> participate q t = Some e"
    and b: "(case arg of None \<Rightarrow> calculateWorkspaceTrust env s | Some b \<Rightarrow> Inr b) = Inr t
             \<and> isWorkpaceTrusted s \<noteq> t"
  have u: "updateWorkspaceTrust env arg s
         = (Some e, (set_isTrusted (Some t) s)
              \<lparr>trace := trace s
                 @ [SaveMemento (Some t)
                      (if t then mementoAcceptsOutOfWorkspaceFiles s else Some False)]
                 @ map (\<lambda>q. Participate (label q) t) (before @ [q])\<rparr>)"
    using updateWorkspaceTrust_reject [where arg = arg and env = env and s = s and t = t
            and before = before and q = q and after = after and e = e] a b by blast
  show "fst (updateWorkspaceTrust env arg s) = Some e" by (simp add: u)
  show "trace (snd (updateWorkspaceTrust env arg s))
              = trace s
                @ [SaveMemento (Some t)
                     (if t then mementoAcceptsOutOfWorkspaceFiles s else Some False)]
                @ map (\<lambda>x. Participate (label x) t) (before @ [q])"
    by (simp add: u)
  show "\<forall>b. DidChangeTrust b
                     \<notin> set (drop (length (trace s)) (trace (snd (updateWorkspaceTrust env arg s))))"
    by (auto simp: u)
qed

theorem participants_in_order_fail_fast_witness:
  "participants
     (addWorkspaceTrustTransitionParticipant \<lparr>label = 2, participate = (\<lambda>t. None)\<rparr>
        (addWorkspaceTrustTransitionParticipant \<lparr>label = 1, participate = (\<lambda>t. Some ''failed'')\<rparr>
           freshService))
     = [\<lparr>label = 1, participate = (\<lambda>t. Some ''failed'')\<rparr>, \<lparr>label = 2, participate = (\<lambda>t. None)\<rparr>]
   \<and> fst (updateWorkspaceTrust projEnv (Some True)
        (freshService\<lparr>participants :=
           [\<lparr>label = 1, participate = (\<lambda>t. Some ''failed'')\<rparr>,
            \<lparr>label = 2, participate = (\<lambda>t. None)\<rparr>]\<rparr>)) = Some ''failed''
   \<and> trace (snd (updateWorkspaceTrust projEnv (Some True)
        (freshService\<lparr>participants :=
           [\<lparr>label = 1, participate = (\<lambda>t. Some ''failed'')\<rparr>,
            \<lparr>label = 2, participate = (\<lambda>t. None)\<rparr>]\<rparr>)))
     = [SaveMemento (Some True) None, Participate 1 True]
   \<and> trace (snd (updateWorkspaceTrust projEnv (Some True)
        (freshService\<lparr>participants :=
           [\<lparr>label = 1, participate = (\<lambda>t. None)\<rparr>,
            \<lparr>label = 2, participate = (\<lambda>t. None)\<rparr>]\<rparr>)))
     = [SaveMemento (Some True) None, Participate 1 True, Participate 2 True,
        DidChangeTrust True, ContextKeySet True]"
proof -
  let ?bad = "\<lparr>label = 1, participate = (\<lambda>t::bool. Some ''failed'')\<rparr>"
  let ?ok1 = "\<lparr>label = 1, participate = (\<lambda>t::bool. None :: exn option)\<rparr>"
  let ?ok2 = "\<lparr>label = 2, participate = (\<lambda>t::bool. None :: exn option)\<rparr>"
  let ?s = "freshService\<lparr>participants := [?bad, ?ok2]\<rparr>"
  let ?r = "freshService\<lparr>participants := [?ok1, ?ok2]\<rparr>"
  have reg: "participants (addWorkspaceTrustTransitionParticipant ?ok2
               (addWorkspaceTrustTransitionParticipant ?bad freshService)) = [?bad, ?ok2]"
    using participants_in_order_fail_fast
            [where p = ?ok2 and s = "addWorkspaceTrustTransitionParticipant ?bad freshService"]
          participants_in_order_fail_fast [where p = ?bad and s = freshService]
    by (simp add: freshService_def)
  have hs: "participants ?s = [] @ ?bad # [?ok2]
        \<and> (\<forall>x\<in>set []. participate x True = None) \<and> participate ?bad True = Some ''failed''"
    by simp
  have hr: "\<forall>x\<in>set (participants ?r). participate x True = None"
    by simp
  have nvs: "(case Some True of None \<Rightarrow> calculateWorkspaceTrust projEnv ?s | Some b \<Rightarrow> Inr b)
               = Inr True \<and> isWorkpaceTrusted ?s \<noteq> True"
    by (simp add: isWorkpaceTrusted_def get_isTrusted_def freshService_def)
  have nvr: "(case Some True of None \<Rightarrow> calculateWorkspaceTrust projEnv ?r | Some b \<Rightarrow> Inr b)
               = Inr True \<and> isWorkpaceTrusted ?r \<noteq> True"
    by (simp add: isWorkpaceTrusted_def get_isTrusted_def freshService_def)
  note S = participants_in_order_fail_fast
             [where s = ?s and t = True and before = "[]" and q = ?bad and after = "[?ok2]"
                and e = "''failed''" and arg = "Some True" and env = projEnv]
  note R = participants_in_order_fail_fast
             [where s = ?r and t = True and arg = "Some True" and env = projEnv]
  have 1: "fst (updateWorkspaceTrust projEnv (Some True) ?s) = Some ''failed''"
    using S hs nvs by blast
  have "trace (snd (updateWorkspaceTrust projEnv (Some True) ?s))
        = trace ?s @ [SaveMemento (Some True)
                     (if True then mementoAcceptsOutOfWorkspaceFiles ?s else Some False)]
                @ map (\<lambda>x. Participate (label x) True) ([] @ [?bad])"
    using S hs nvs by blast
  then have 2: "trace (snd (updateWorkspaceTrust projEnv (Some True) ?s))
        = [SaveMemento (Some True) None, Participate 1 True]"
    by (simp add: freshService_def)
  have "trace (snd (updateWorkspaceTrust projEnv (Some True) ?r))
        = trace ?r @ [SaveMemento (Some True)
                     (if True then mementoAcceptsOutOfWorkspaceFiles ?r else Some False)]
                @ map (\<lambda>x. Participate (label x) True) (participants ?r)
                @ [DidChangeTrust True, ContextKeySet True]"
    using R hr nvr by blast
  then have 3: "trace (snd (updateWorkspaceTrust projEnv (Some True) ?r))
        = [SaveMemento (Some True) None, Participate 1 True, Participate 2 True,
           DidChangeTrust True, ContextKeySet True]"
    by (simp add: freshService_def)
  from reg 1 2 3 show ?thesis by blast
qed

section \<open>A failed transition keeps the new trust value\<close>

text \<open>
  Claim C10. \<open>updateWorkspaceTrust\<close> stores the new trust value in the workspace memento
  and saves the memento before any participant is invoked. So whenever it rejects, the
  rejection comes from a participant, \<open>isWorkpaceTrusted\<close> already answers with the new
  value (different from the one before the call), the memento was saved before the first
  participant ran, and \<open>onDidChangeTrust\<close> was not fired: nothing is rolled back.
\<close>

theorem updateWorkspaceTrust_not_rolled_back:
  "fst (updateWorkspaceTrust env arg s) = Some e \<longrightarrow>
     (\<exists>t. (case arg of None \<Rightarrow> calculateWorkspaceTrust env s | Some b \<Rightarrow> Inr b) = Inr t
        \<and> isWorkpaceTrusted s \<noteq> t
        \<and> (\<exists>q\<in>set (participants s). participate q t = Some e)
        \<and> isWorkpaceTrusted (snd (updateWorkspaceTrust env arg s)) = t
        \<and> get_isTrusted (snd (updateWorkspaceTrust env arg s)) = Some t
        \<and> (\<exists>a evs. trace (snd (updateWorkspaceTrust env arg s))
                       = trace s @ SaveMemento (Some t) a # evs
                   \<and> evs \<noteq> [] \<and> (\<forall>ev\<in>set evs. \<exists>l. ev = Participate l t))
        \<and> (\<forall>b. DidChangeTrust b
                 \<notin> set (drop (length (trace s)) (trace (snd (updateWorkspaceTrust env arg s))))))"
proof
  assume "fst (updateWorkspaceTrust env arg s) = Some e"
  from updateWorkspaceTrust_rejected_by [OF this]
  obtain t before q after where
    nv: "(case arg of None \<Rightarrow> calculateWorkspaceTrust env s | Some b \<Rightarrow> Inr b) = Inr t"
    and ch: "isWorkpaceTrusted s \<noteq> t"
    and ps: "participants s = before @ q # after" "\<forall>x\<in>set before. participate x t = None"
      "participate q t = Some e"
    by blast
  let ?a = "if t then mementoAcceptsOutOfWorkspaceFiles s else Some False"
  let ?evs = "map (\<lambda>q. Participate (label q) t) (before @ [q])"
  have u: "updateWorkspaceTrust env arg s
         = (Some e, (set_isTrusted (Some t) s)
              \<lparr>trace := trace s @ [SaveMemento (Some t) ?a] @ ?evs\<rparr>)"
    by (rule updateWorkspaceTrust_reject [OF nv ch ps])
  have m: "get_isTrusted (snd (updateWorkspaceTrust env arg s)) = Some t"
    by (simp add: u get_isTrusted_def set_isTrusted_def saveMemento_def fire_def Let_def)
  have w: "isWorkpaceTrusted (snd (updateWorkspaceTrust env arg s)) = t"
    by (simp add: isWorkpaceTrusted_def m)
  have tr: "trace (snd (updateWorkspaceTrust env arg s)) = trace s @ SaveMemento (Some t) ?a # ?evs"
    by (simp add: u)
  have ev: "?evs \<noteq> [] \<and> (\<forall>ev\<in>set ?evs. \<exists>l. ev = Participate l t)"
    by auto
  have nf: "\<forall>b. DidChangeTrust b
                 \<notin> set (drop (length (trace s)) (trace (snd (updateWorkspaceTrust env arg s))))"
    by (auto simp: tr)
  have qin: "\<exists>q\<in>set (participants s). participate q t = Some e"
    using ps(1,3) by auto
  from nv ch qin w m tr ev nf
  show "\<exists>t. (case arg of None \<Rightarrow> calculateWorkspaceTrust env s | Some b \<Rightarrow> Inr b) = Inr t
        \<and> isWorkpaceTrusted s \<noteq> t
        \<and> (\<exists>q\<in>set (participants s). participate q t = Some e)
        \<and> isWorkpaceTrusted (snd (updateWorkspaceTrust env arg s)) = t
        \<and> get_isTrusted (snd (updateWorkspaceTrust env arg s)) = Some t
        \<and> (\<exists>a evs. trace (snd (updateWorkspaceTrust env arg s))
                       = trace s @ SaveMemento (Some t) a # evs
                   \<and> evs \<noteq> [] \<and> (\<forall>ev\<in>set evs. \<exists>l. ev = Participate l t))
        \<and> (\<forall>b. DidChangeTrust b
                 \<notin> set (drop (length (trace s)) (trace (snd (updateWorkspaceTrust env arg s)))))"
    by blast
qed

theorem updateWorkspaceTrust_not_rolled_back_witness:
  "fst (updateWorkspaceTrust projEnv (Some False)
          (freshService\<lparr>mementoIsTrusted := Some True, requestTrusted := True,
             participants := [\<lparr>label = 7, participate = (\<lambda>t. Some ''busy'')\<rparr>]\<rparr>))
     = Some ''busy''
   \<and> isWorkpaceTrusted
        (freshService\<lparr>mementoIsTrusted := Some True, requestTrusted := True,
             participants := [\<lparr>label = 7, participate = (\<lambda>t. Some ''busy'')\<rparr>]\<rparr>)
   \<and> \<not> isWorkpaceTrusted (snd (updateWorkspaceTrust projEnv (Some False)
          (freshService\<lparr>mementoIsTrusted := Some True, requestTrusted := True,
             participants := [\<lparr>label = 7, participate = (\<lambda>t. Some ''busy'')\<rparr>]\<rparr>)))
   \<and> DidChangeTrust False \<notin> set (trace (snd (updateWorkspaceTrust projEnv (Some False)
          (freshService\<lparr>mementoIsTrusted := Some True, requestTrusted := True,
             participants := [\<lparr>label = 7, participate = (\<lambda>t. Some ''busy'')\<rparr>]\<rparr>))))"
proof -
  let ?s = "freshService\<lparr>mementoIsTrusted := Some True, requestTrusted := True,
             participants := [\<lparr>label = 7, participate = (\<lambda>t. Some ''busy'')\<rparr>]\<rparr>"
  have before: "isWorkpaceTrusted ?s"
    by (simp add: isWorkpaceTrusted_def get_isTrusted_def)
  have rej: "fst (updateWorkspaceTrust projEnv (Some False) ?s) = Some ''busy''"
    by (simp add: updateWorkspaceTrust_def WorkspaceTrustTransitionManager_participate_def
          isWorkpaceTrusted_def get_isTrusted_def set_isTrusted_def saveMemento_def fire_def
          Let_def)
  have tr0: "trace ?s = []" by (simp add: freshService_def)
  from updateWorkspaceTrust_not_rolled_back
         [where env = projEnv and arg = "Some False" and s = ?s and e = "''busy''"] rej
  obtain t where t: "(case Some False of None \<Rightarrow> calculateWorkspaceTrust projEnv ?s
                        | Some b \<Rightarrow> Inr b) = Inr t"
     "isWorkpaceTrusted (snd (updateWorkspaceTrust projEnv (Some False) ?s)) = t"
     "\<forall>b. DidChangeTrust b \<notin> set (drop (length (trace ?s))
              (trace (snd (updateWorkspaceTrust projEnv (Some False) ?s))))"
    by blast
  from t(1) have "t = False" by simp
  with t(2,3) tr0 before rej show ?thesis by simp
qed

section \<open>Losing trust resets \<open>acceptsOutOfWorkspaceFiles\<close>\<close>

lemma set_isTrusted_resets:
  "v \<noteq> Some True \<Longrightarrow> \<not> get_acceptsOutOfWorkspaceFiles (set_isTrusted v s)"
  by (cases v) (auto simp: get_acceptsOutOfWorkspaceFiles_def set_isTrusted_def saveMemento_def
        fire_def Let_def)

lemma participate_loop_memento:
  "mementoIsTrusted (snd (participate_loop t ps s)) = mementoIsTrusted s"
  "mementoAcceptsOutOfWorkspaceFiles (snd (participate_loop t ps s))
     = mementoAcceptsOutOfWorkspaceFiles s"
  by (subst participate_loop_frame2, simp)+

lemma updateWorkspaceTrust_memento:
  "(mementoIsTrusted (snd (updateWorkspaceTrust env arg s)) = mementoIsTrusted s
      \<and> mementoAcceptsOutOfWorkspaceFiles (snd (updateWorkspaceTrust env arg s))
          = mementoAcceptsOutOfWorkspaceFiles s)
   \<or> (\<exists>t. mementoIsTrusted (snd (updateWorkspaceTrust env arg s)) = Some t
          \<and> mementoAcceptsOutOfWorkspaceFiles (snd (updateWorkspaceTrust env arg s))
              = (if t then mementoAcceptsOutOfWorkspaceFiles s else Some False))"
proof -
  obtain t where nv: "(case arg of None \<Rightarrow> calculateWorkspaceTrust env s | Some b \<Rightarrow> Inr b) = Inr t"
    using calculateWorkspaceTrust_total [of env s] by (cases arg) auto
  show ?thesis
  proof (cases "isWorkpaceTrusted s = t")
    case True
    then show ?thesis using nv by (simp add: updateWorkspaceTrust_def)
  next
    case False
    let ?s1 = "set_isTrusted (Some t) s"
    obtain r s2 where p: "participate_loop t (participants ?s1) ?s1 = (r, s2)"
      by (cases "participate_loop t (participants ?s1) ?s1")
    have m: "mementoIsTrusted s2 = Some t"
      "mementoAcceptsOutOfWorkspaceFiles s2
         = (if t then mementoAcceptsOutOfWorkspaceFiles s else Some False)"
      using participate_loop_memento [of t "participants ?s1" ?s1] p
      by (simp_all add: set_isTrusted_def saveMemento_def fire_def Let_def)
    have "snd (updateWorkspaceTrust env arg s) = s2
          \<or> snd (updateWorkspaceTrust env arg s) = fireDidChangeTrust t s2"
      using nv False p
      by (auto simp: updateWorkspaceTrust_def WorkspaceTrustTransitionManager_participate_def
            split: option.splits)
    then have "mementoIsTrusted (snd (updateWorkspaceTrust env arg s)) = Some t
        \<and> mementoAcceptsOutOfWorkspaceFiles (snd (updateWorkspaceTrust env arg s))
            = (if t then mementoAcceptsOutOfWorkspaceFiles s else Some False)"
    proof
      assume "snd (updateWorkspaceTrust env arg s) = s2"
      then show ?thesis by (simp add: m)
    next
      assume "snd (updateWorkspaceTrust env arg s) = fireDidChangeTrust t s2"
      then show ?thesis by (simp add: m fireDidChangeTrust_def fire_def)
    qed
    then show ?thesis by blast
  qed
qed

lemma updateWorkspaceTrust_forced_reset:
  assumes "isWorkpaceTrusted s0" "mementoIsTrusted s = mementoIsTrusted s0"
    and "\<not> isWorkpaceTrusted (snd (updateWorkspaceTrust env arg s))"
  shows "\<not> get_acceptsOutOfWorkspaceFiles (snd (updateWorkspaceTrust env arg s))"
proof -
  let ?s' = "snd (updateWorkspaceTrust env arg s)"
  from updateWorkspaceTrust_memento [of env arg s]
  consider "mementoIsTrusted ?s' = mementoIsTrusted s"
    | t where "mementoIsTrusted ?s' = Some t"
        "mementoAcceptsOutOfWorkspaceFiles ?s'
           = (if t then mementoAcceptsOutOfWorkspaceFiles s else Some False)"
    by blast
  then show ?thesis
  proof cases
    case 1
    with assms show ?thesis by (simp add: isWorkpaceTrusted_def get_isTrusted_def)
  next
    case 2
    from 2(1) assms(3) have "\<not> t" by (simp add: isWorkpaceTrusted_def get_isTrusted_def)
    with 2(2) show ?thesis by (simp add: get_acceptsOutOfWorkspaceFiles_def)
  qed
qed

lemma saveTrustInfo_forced_reset:
  assumes "isWorkpaceTrusted s0" "mementoIsTrusted s = mementoIsTrusted s0"
    and "\<not> isWorkpaceTrusted (snd (saveTrustInfo env s))"
  shows "\<not> get_acceptsOutOfWorkspaceFiles (snd (saveTrustInfo env s))"
proof -
  let ?s2 = "fire DidChangeTrustedFolders
               (fire StorageStore (s\<lparr>storage := Some (Info (Some (uriTrustInfo s)))\<rparr>))"
  have e: "saveTrustInfo env s = updateWorkspaceTrust env None ?s2"
    by (simp add: saveTrustInfo_def Let_def)
  have m: "mementoIsTrusted ?s2 = mementoIsTrusted s0"
    using assms(2) by (simp add: fire_def)
  from assms(3) have "\<not> isWorkpaceTrusted (snd (updateWorkspaceTrust env None ?s2))"
    by (simp add: e)
  from updateWorkspaceTrust_forced_reset [OF assms(1) m this]
  show ?thesis by (simp add: e)
qed

lemma setUrisTrust_forced_reset:
  assumes "isWorkpaceTrusted s" "\<not> isWorkpaceTrusted (snd (setUrisTrust env uris t s))"
  shows "\<not> get_acceptsOutOfWorkspaceFiles (snd (setUrisTrust env uris t s))"
proof -
  obtain es c where l: "setUrisTrust_loop (uriOps env) t uris (uriTrustInfo s, False) = (es, c)"
    by (cases "setUrisTrust_loop (uriOps env) t uris (uriTrustInfo s, False)")
  show ?thesis
  proof (cases c)
    case True
    then have e: "setUrisTrust env uris t s = saveTrustInfo env (s\<lparr>uriTrustInfo := es\<rparr>)"
      by (simp add: setUrisTrust_def l)
    have m: "mementoIsTrusted (s\<lparr>uriTrustInfo := es\<rparr>) = mementoIsTrusted s" by simp
    from assms(2) have "\<not> isWorkpaceTrusted (snd (saveTrustInfo env (s\<lparr>uriTrustInfo := es\<rparr>)))"
      by (simp add: e)
    from saveTrustInfo_forced_reset [OF assms(1) m this]
    show ?thesis by (simp add: e)
  next
    case False
    then have "setUrisTrust env uris t s = (None, s\<lparr>uriTrustInfo := es\<rparr>)"
      by (simp add: setUrisTrust_def l)
    with assms show ?thesis by (simp add: isWorkpaceTrusted_def get_isTrusted_def)
  qed
qed

lemma setWorkspaceTrust_forced_reset:
  assumes "isWorkpaceTrusted s" "\<not> isWorkpaceTrusted (snd (setWorkspaceTrust env t s))"
  shows "\<not> get_acceptsOutOfWorkspaceFiles (snd (setWorkspaceTrust env t s))"
proof (cases "workbenchState env = EMPTY")
  case True
  then show ?thesis
    using assms updateWorkspaceTrust_forced_reset [of s s env "Some t"]
    by (simp add: setWorkspaceTrust_def)
next
  case False
  show ?thesis
  proof (cases "getWorkspaceUris env s")
    case (Inl e)
    with False assms show ?thesis by (simp add: setWorkspaceTrust_def)
  next
    case (Inr us)
    with False assms show ?thesis
      using setUrisTrust_forced_reset [of s env us t] by (simp add: setWorkspaceTrust_def)
  qed
qed

lemma resolveRequest_memento:
  "mementoIsTrusted (resolveRequest arg s) = mementoIsTrusted s"
  "mementoAcceptsOutOfWorkspaceFiles (resolveRequest arg s) = mementoAcceptsOutOfWorkspaceFiles s"
  by (simp_all add: resolveRequest_def split: option.splits)

lemma completeRequest_forced_reset:
  assumes "isWorkpaceTrusted s" "\<not> isWorkpaceTrusted (snd (completeRequest env arg s))"
  shows "\<not> get_acceptsOutOfWorkspaceFiles (snd (completeRequest env arg s))"
proof -
  have direct: False if "snd (completeRequest env arg s) = resolveRequest arg s"
    using that assms by (simp add: isWorkpaceTrusted_def get_isTrusted_def resolveRequest_memento)
  show ?thesis
  proof (cases arg)
    case None
    then show ?thesis using direct by (simp add: completeRequest_def)
  next
    case (Some t)
    show ?thesis
    proof (cases "t = requestTrusted s")
      case True
      then show ?thesis using direct Some by (simp add: completeRequest_def)
    next
      case False
      obtain r s1 where w: "setWorkspaceTrust env t s = (r, s1)"
        by (cases "setWorkspaceTrust env t s")
      have c: "snd (completeRequest env arg s) = s1
             \<or> snd (completeRequest env arg s) = resolveRequest arg s1"
        using Some False w by (cases r) (simp_all add: completeRequest_def)
      have mi: "mementoIsTrusted (snd (completeRequest env arg s)) = mementoIsTrusted s1"
        and ma: "mementoAcceptsOutOfWorkspaceFiles (snd (completeRequest env arg s))
                 = mementoAcceptsOutOfWorkspaceFiles s1"
        using c resolveRequest_memento [of arg s1] by metis+
      have "\<not> isWorkpaceTrusted s1"
        using assms(2) by (simp add: isWorkpaceTrusted_def get_isTrusted_def mi)
      then have "\<not> get_acceptsOutOfWorkspaceFiles s1"
        using setWorkspaceTrust_forced_reset [of s env t] assms(1) w by simp
      then show ?thesis
        by (simp add: get_acceptsOutOfWorkspaceFiles_def ma)
    qed
  qed
qed

lemma onDidChangeValue_cases:
  "onDidChangeValue env k d s = (None, s)
   \<or> (\<exists>e. k \<and> loadTrustInfo env s = Inl e \<and> onDidChangeValue env k d s = (Some e, s))
   \<or> (\<exists>info. k \<and> d \<and> loadTrustInfo env s = Inr info
          \<and> onDidChangeValue env k d s
              = updateWorkspaceTrust env None
                  (fire DidChangeTrustedFolders (s\<lparr>uriTrustInfo := info\<rparr>)))"
proof (cases "loadTrustInfo env s")
  case (Inl e)
  then show ?thesis by (simp add: onDidChangeValue_def)
next
  case (Inr info)
  then show ?thesis by (simp add: onDidChangeValue_def)
qed

lemma initializeWorkspaceTrust_cases:
  "(\<exists>e. loadTrustInfo env s = Inl e \<and> initializeWorkspaceTrust env s = (Some e, s))
   \<or> (\<exists>info t. loadTrustInfo env s = Inr info
          \<and> calculateWorkspaceTrust env (s\<lparr>uriTrustInfo := info\<rparr>) = Inr t
          \<and> initializeWorkspaceTrust env s
              = (None, set_isTrusted (Some t) (s\<lparr>uriTrustInfo := info\<rparr>)))"
proof (cases "loadTrustInfo env s")
  case (Inl e)
  then show ?thesis by (simp add: initializeWorkspaceTrust_def)
next
  case (Inr info)
  obtain t where "calculateWorkspaceTrust env (s\<lparr>uriTrustInfo := info\<rparr>) = Inr t"
    using calculateWorkspaceTrust_total by blast
  then show ?thesis using Inr by (simp add: initializeWorkspaceTrust_def Let_def)
qed

lemma onDidChangeValue_forced_reset:
  assumes "isWorkpaceTrusted s" "\<not> isWorkpaceTrusted (snd (onDidChangeValue env k d s))"
  shows "\<not> get_acceptsOutOfWorkspaceFiles (snd (onDidChangeValue env k d s))"
proof -
  from onDidChangeValue_cases [of env k d s]
  consider "onDidChangeValue env k d s = (None, s)"
    | e where "onDidChangeValue env k d s = (Some e, s)"
    | info where "onDidChangeValue env k d s
              = updateWorkspaceTrust env None
                  (fire DidChangeTrustedFolders (s\<lparr>uriTrustInfo := info\<rparr>))"
    by blast
  then show ?thesis
  proof cases
    case 1
    with assms show ?thesis by simp
  next
    case 2
    with assms show ?thesis by simp
  next
    case 3
    let ?s1 = "fire DidChangeTrustedFolders (s\<lparr>uriTrustInfo := info\<rparr>)"
    have m: "mementoIsTrusted ?s1 = mementoIsTrusted s" by (simp add: fire_def)
    from assms(2) have "\<not> isWorkpaceTrusted (snd (updateWorkspaceTrust env None ?s1))"
      by (simp add: 3)
    from updateWorkspaceTrust_forced_reset [OF assms(1) m this]
    show ?thesis by (simp add: 3)
  qed
qed

lemma initializeWorkspaceTrust_forced_reset:
  assumes "isWorkpaceTrusted s \<or> fst (initializeWorkspaceTrust env s) = None"
    and "\<not> isWorkpaceTrusted (snd (initializeWorkspaceTrust env s))"
  shows "\<not> get_acceptsOutOfWorkspaceFiles (snd (initializeWorkspaceTrust env s))"
proof -
  from initializeWorkspaceTrust_cases [of env s]
  consider e where "initializeWorkspaceTrust env s = (Some e, s)"
    | info t where "initializeWorkspaceTrust env s
              = (None, set_isTrusted (Some t) (s\<lparr>uriTrustInfo := info\<rparr>))"
    by blast
  then show ?thesis
  proof cases
    case 1
    with assms show ?thesis by simp
  next
    case 2
    have "\<not> t" using assms(2) unfolding 2
      by (cases t) (simp_all add: isWorkpaceTrusted_def get_isTrusted_def set_isTrusted_def
            saveMemento_def fire_def Let_def)
    then have "Some t \<noteq> Some True" by simp
    from set_isTrusted_resets [OF this] show ?thesis by (simp add: 2)
  qed
qed

text \<open>
  Claim C7. Setting \<open>isTrusted\<close> to false (or clearing it) makes the getter of
  \<open>acceptsOutOfWorkspaceFiles\<close> answer false, also when the flag was true before. Hence
  every operation of the services that takes the workspace from trusted to untrusted
  leaves \<open>acceptsOutOfWorkspaceFiles\<close> false (for the storage listener: whatever the
  changed key and the outcome of its comparison of the JSON strings), and so does an
  initialization that resolves and ends untrusted.
\<close>

theorem untrusted_resets_acceptsOutOfWorkspaceFiles:
  "\<not> get_acceptsOutOfWorkspaceFiles (set_isTrusted (Some False) s)
   \<and> \<not> get_acceptsOutOfWorkspaceFiles
         (set_isTrusted (Some False) (set_acceptsOutOfWorkspaceFiles True s))
   \<and> (v \<noteq> Some True \<longrightarrow> \<not> get_acceptsOutOfWorkspaceFiles (set_isTrusted v s))
   \<and> (isWorkpaceTrusted s \<and> \<not> isWorkpaceTrusted (snd (updateWorkspaceTrust env arg s))
        \<longrightarrow> \<not> get_acceptsOutOfWorkspaceFiles (snd (updateWorkspaceTrust env arg s)))
   \<and> (isWorkpaceTrusted s \<and> \<not> isWorkpaceTrusted (snd (setUrisTrust env uris t s))
        \<longrightarrow> \<not> get_acceptsOutOfWorkspaceFiles (snd (setUrisTrust env uris t s)))
   \<and> (isWorkpaceTrusted s \<and> \<not> isWorkpaceTrusted (snd (setTrustedFolders env uris s))
        \<longrightarrow> \<not> get_acceptsOutOfWorkspaceFiles (snd (setTrustedFolders env uris s)))
   \<and> (isWorkpaceTrusted s \<and> \<not> isWorkpaceTrusted (snd (setWorkspaceTrust env t s))
        \<longrightarrow> \<not> get_acceptsOutOfWorkspaceFiles (snd (setWorkspaceTrust env t s)))
   \<and> (isWorkpaceTrusted s \<and> \<not> isWorkpaceTrusted (snd (completeRequest env arg s))
        \<longrightarrow> \<not> get_acceptsOutOfWorkspaceFiles (snd (completeRequest env arg s)))
   \<and> (isWorkpaceTrusted s \<and> \<not> isWorkpaceTrusted (snd (onDidChangeValue env k d s))
        \<longrightarrow> \<not> get_acceptsOutOfWorkspaceFiles (snd (onDidChangeValue env k d s)))
   \<and> (isWorkpaceTrusted s \<and> \<not> isWorkpaceTrusted (snd (initializeWorkspaceTrust env s))
        \<longrightarrow> \<not> get_acceptsOutOfWorkspaceFiles (snd (initializeWorkspaceTrust env s)))
   \<and> (fst (initializeWorkspaceTrust env s) = None
        \<and> \<not> isWorkpaceTrusted (snd (initializeWorkspaceTrust env s))
        \<longrightarrow> \<not> get_acceptsOutOfWorkspaceFiles (snd (initializeWorkspaceTrust env s)))"
proof (intro conjI impI)
  show "\<not> get_acceptsOutOfWorkspaceFiles (set_isTrusted (Some False) s)"
    by (rule set_isTrusted_resets) simp
  show "\<not> get_acceptsOutOfWorkspaceFiles
         (set_isTrusted (Some False) (set_acceptsOutOfWorkspaceFiles True s))"
    by (rule set_isTrusted_resets) simp
  show "\<not> get_acceptsOutOfWorkspaceFiles (set_isTrusted v s)" if "v \<noteq> Some True"
    using that by (rule set_isTrusted_resets)
  show "\<not> get_acceptsOutOfWorkspaceFiles (snd (updateWorkspaceTrust env arg s))"
    if "isWorkpaceTrusted s \<and> \<not> isWorkpaceTrusted (snd (updateWorkspaceTrust env arg s))"
    using that updateWorkspaceTrust_forced_reset [of s s env arg] by blast
  show "\<not> get_acceptsOutOfWorkspaceFiles (snd (setUrisTrust env uris t s))"
    if "isWorkpaceTrusted s \<and> \<not> isWorkpaceTrusted (snd (setUrisTrust env uris t s))"
    using that setUrisTrust_forced_reset [of s env uris t] by blast
  show "\<not> get_acceptsOutOfWorkspaceFiles (snd (setTrustedFolders env uris s))"
    if h: "isWorkpaceTrusted s \<and> \<not> isWorkpaceTrusted (snd (setTrustedFolders env uris s))"
  proof -
    let ?s1 = "s\<lparr>uriTrustInfo := setTrustedFolders_loop (uriOps env) uris []\<rparr>"
    have e: "setTrustedFolders env uris s = saveTrustInfo env ?s1"
      by (simp add: setTrustedFolders_def)
    have m: "mementoIsTrusted ?s1 = mementoIsTrusted s" by simp
    from h have a: "isWorkpaceTrusted s" and "\<not> isWorkpaceTrusted (snd (saveTrustInfo env ?s1))"
      by (simp_all add: e)
    from saveTrustInfo_forced_reset [OF a m this(2)] show ?thesis by (simp add: e)
  qed
  show "\<not> get_acceptsOutOfWorkspaceFiles (snd (setWorkspaceTrust env t s))"
    if "isWorkpaceTrusted s \<and> \<not> isWorkpaceTrusted (snd (setWorkspaceTrust env t s))"
    using that setWorkspaceTrust_forced_reset [of s env t] by blast
  show "\<not> get_acceptsOutOfWorkspaceFiles (snd (completeRequest env arg s))"
    if "isWorkpaceTrusted s \<and> \<not> isWorkpaceTrusted (snd (completeRequest env arg s))"
    using that completeRequest_forced_reset [of s env arg] by blast
  show "\<not> get_acceptsOutOfWorkspaceFiles (snd (onDidChangeValue env k d s))"
    if "isWorkpaceTrusted s \<and> \<not> isWorkpaceTrusted (snd (onDidChangeValue env k d s))"
    using that onDidChangeValue_forced_reset [where s = s and env = env and k = k and d = d]
    by blast
  show "\<not> get_acceptsOutOfWorkspaceFiles (snd (initializeWorkspaceTrust env s))"
    if "isWorkpaceTrusted s \<and> \<not> isWorkpaceTrusted (snd (initializeWorkspaceTrust env s))"
    using that initializeWorkspaceTrust_forced_reset [where s = s and env = env] by blast
  show "\<not> get_acceptsOutOfWorkspaceFiles (snd (initializeWorkspaceTrust env s))"
    if "fst (initializeWorkspaceTrust env s) = None
        \<and> \<not> isWorkpaceTrusted (snd (initializeWorkspaceTrust env s))"
    using that initializeWorkspaceTrust_forced_reset [where s = s and env = env] by blast
qed

theorem untrusted_resets_acceptsOutOfWorkspaceFiles_witness:
  "get_acceptsOutOfWorkspaceFiles
       (freshService\<lparr>uriTrustInfo := [\<lparr>uri = ''/proj'', trusted = True\<rparr>],
          mementoIsTrusted := Some True, mementoAcceptsOutOfWorkspaceFiles := Some True,
          requestTrusted := True\<rparr>)
   \<and> isWorkpaceTrusted
       (freshService\<lparr>uriTrustInfo := [\<lparr>uri = ''/proj'', trusted = True\<rparr>],
          mementoIsTrusted := Some True, mementoAcceptsOutOfWorkspaceFiles := Some True,
          requestTrusted := True\<rparr>)
   \<and> \<not> get_acceptsOutOfWorkspaceFiles (snd (updateWorkspaceTrust projEnv (Some False)
       (freshService\<lparr>uriTrustInfo := [\<lparr>uri = ''/proj'', trusted = True\<rparr>],
          mementoIsTrusted := Some True, mementoAcceptsOutOfWorkspaceFiles := Some True,
          requestTrusted := True\<rparr>)))
   \<and> \<not> get_acceptsOutOfWorkspaceFiles (snd (setUrisTrust projEnv [''/proj''] False
       (freshService\<lparr>uriTrustInfo := [\<lparr>uri = ''/proj'', trusted = True\<rparr>],
          mementoIsTrusted := Some True, mementoAcceptsOutOfWorkspaceFiles := Some True,
          requestTrusted := True\<rparr>)))
   \<and> \<not> get_acceptsOutOfWorkspaceFiles (snd (setTrustedFolders projEnv []
       (freshService\<lparr>uriTrustInfo := [\<lparr>uri = ''/proj'', trusted = True\<rparr>],
          mementoIsTrusted := Some True, mementoAcceptsOutOfWorkspaceFiles := Some True,
          requestTrusted := True\<rparr>)))
   \<and> \<not> get_acceptsOutOfWorkspaceFiles (snd (setWorkspaceTrust projEnv False
       (freshService\<lparr>uriTrustInfo := [\<lparr>uri = ''/proj'', trusted = True\<rparr>],
          mementoIsTrusted := Some True, mementoAcceptsOutOfWorkspaceFiles := Some True,
          requestTrusted := True\<rparr>)))
   \<and> \<not> get_acceptsOutOfWorkspaceFiles (snd (completeRequest projEnv (Some False)
       (freshService\<lparr>uriTrustInfo := [\<lparr>uri = ''/proj'', trusted = True\<rparr>],
          mementoIsTrusted := Some True, mementoAcceptsOutOfWorkspaceFiles := Some True,
          requestTrusted := True\<rparr>)))
   \<and> \<not> get_acceptsOutOfWorkspaceFiles (snd (onDidChangeValue projEnv True True
       (freshService\<lparr>uriTrustInfo := [\<lparr>uri = ''/proj'', trusted = True\<rparr>],
          mementoIsTrusted := Some True, mementoAcceptsOutOfWorkspaceFiles := Some True,
          requestTrusted := True\<rparr>)))
   \<and> loadTrustInfo projEnv
       (freshService\<lparr>mementoIsTrusted := Some True,
          mementoAcceptsOutOfWorkspaceFiles := Some True\<rparr>)
     = Inr (uriTrustInfo
         (freshService\<lparr>mementoIsTrusted := Some True,
            mementoAcceptsOutOfWorkspaceFiles := Some True\<rparr>))
   \<and> isWorkpaceTrusted
       (freshService\<lparr>mementoIsTrusted := Some True,
          mementoAcceptsOutOfWorkspaceFiles := Some True\<rparr>)
   \<and> \<not> isWorkpaceTrusted (snd (onDidChangeValue projEnv True True
       (freshService\<lparr>mementoIsTrusted := Some True,
          mementoAcceptsOutOfWorkspaceFiles := Some True\<rparr>)))
   \<and> \<not> get_acceptsOutOfWorkspaceFiles (snd (onDidChangeValue projEnv True True
       (freshService\<lparr>mementoIsTrusted := Some True,
          mementoAcceptsOutOfWorkspaceFiles := Some True\<rparr>)))
   \<and> \<not> get_acceptsOutOfWorkspaceFiles (snd (initializeWorkspaceTrust projEnv
       (freshService\<lparr>uriTrustInfo := [\<lparr>uri = ''/proj'', trusted = True\<rparr>],
          mementoIsTrusted := Some True, mementoAcceptsOutOfWorkspaceFiles := Some True,
          requestTrusted := True\<rparr>)))
   \<and> \<not> get_acceptsOutOfWorkspaceFiles (set_isTrusted None
       (freshService\<lparr>uriTrustInfo := [\<lparr>uri = ''/proj'', trusted = True\<rparr>],
          mementoIsTrusted := Some True, mementoAcceptsOutOfWorkspaceFiles := Some True,
          requestTrusted := True\<rparr>))"
proof -
  let ?s = "freshService\<lparr>uriTrustInfo := [\<lparr>uri = ''/proj'', trusted = True\<rparr>],
              mementoIsTrusted := Some True, mementoAcceptsOutOfWorkspaceFiles := Some True,
              requestTrusted := True\<rparr>"
  let ?v = "freshService\<lparr>mementoIsTrusted := Some True,
              mementoAcceptsOutOfWorkspaceFiles := Some True\<rparr>"
  note defs = completeRequest_def setWorkspaceTrust_def getWorkspaceUris_def
          getCanonicalUri_def hasRemoteAuthority_def setUrisTrust_def setTrustedFolders_def
          saveTrustInfo_def onDidChangeValue_def initializeWorkspaceTrust_def loadTrustInfo_def
          updateWorkspaceTrust_def calculateWorkspaceTrust_def isWorkspaceTrustEnabled_def
          getUriTrustInfo_def WorkspaceTrustTransitionManager_participate_def
          set_isTrusted_def saveMemento_def fire_def fireDidChangeTrust_def
          isWorkpaceTrusted_def get_isTrusted_def projEnv_def posixOps_def freshService_def
          Let_def
  note T = untrusted_resets_acceptsOutOfWorkspaceFiles
             [where s = ?s and env = projEnv and arg = "Some False" and v = None
                and uris = "[]" and t = False and k = True and d = True]
  note V = untrusted_resets_acceptsOutOfWorkspaceFiles
             [where s = ?v and env = projEnv and k = True and d = True]
  note R = untrusted_resets_acceptsOutOfWorkspaceFiles
             [where s = ?s and env = projEnv and uris = "[''/proj'']" and t = False]
  have a: "get_acceptsOutOfWorkspaceFiles ?s"
    by (simp add: get_acceptsOutOfWorkspaceFiles_def)
  have b: "isWorkpaceTrusted ?s"
    by (simp add: isWorkpaceTrusted_def get_isTrusted_def)
  have v: "(None :: bool option) \<noteq> Some True" by simp
  have cu: "\<not> isWorkpaceTrusted (snd (updateWorkspaceTrust projEnv (Some False) ?s))"
    by (simp add: defs)
  have cr: "\<not> isWorkpaceTrusted (snd (setUrisTrust projEnv [''/proj''] False ?s))"
    by (simp add: defs)
  have cf: "\<not> isWorkpaceTrusted (snd (setTrustedFolders projEnv [] ?s))"
    by (simp add: defs)
  have cw: "\<not> isWorkpaceTrusted (snd (setWorkspaceTrust projEnv False ?s))"
    by (simp add: defs)
  have cc: "\<not> isWorkpaceTrusted (snd (completeRequest projEnv (Some False) ?s))"
    by (simp add: defs resolveRequest_def)
  have co: "\<not> isWorkpaceTrusted (snd (onDidChangeValue projEnv True True ?s))"
    by (simp add: defs)
  have vl: "loadTrustInfo projEnv ?v = Inr (uriTrustInfo ?v)"
    by (simp add: loadTrustInfo_def freshService_def)
  have vb: "isWorkpaceTrusted ?v"
    by (simp add: isWorkpaceTrusted_def get_isTrusted_def)
  have vo: "\<not> isWorkpaceTrusted (snd (onDidChangeValue projEnv True True ?v))"
    by (simp add: defs)
  have ci: "\<not> isWorkpaceTrusted (snd (initializeWorkspaceTrust projEnv ?s))"
    by (simp add: defs)
  have du: "\<not> get_acceptsOutOfWorkspaceFiles (snd (updateWorkspaceTrust projEnv (Some False) ?s))"
    using T b cu by blast
  have dr: "\<not> get_acceptsOutOfWorkspaceFiles (snd (setUrisTrust projEnv [''/proj''] False ?s))"
    using R b cr by blast
  have df: "\<not> get_acceptsOutOfWorkspaceFiles (snd (setTrustedFolders projEnv [] ?s))"
    using T b cf by blast
  have dw: "\<not> get_acceptsOutOfWorkspaceFiles (snd (setWorkspaceTrust projEnv False ?s))"
    using T b cw by blast
  have dc: "\<not> get_acceptsOutOfWorkspaceFiles (snd (completeRequest projEnv (Some False) ?s))"
    using T b cc by blast
  have dd: "\<not> get_acceptsOutOfWorkspaceFiles (snd (onDidChangeValue projEnv True True ?s))"
    using T b co by blast
  have vd: "\<not> get_acceptsOutOfWorkspaceFiles (snd (onDidChangeValue projEnv True True ?v))"
    using V vb vo by blast
  have di: "\<not> get_acceptsOutOfWorkspaceFiles (snd (initializeWorkspaceTrust projEnv ?s))"
    using T b ci by blast
  have e: "\<not> get_acceptsOutOfWorkspaceFiles (set_isTrusted None ?s)"
    using T v by blast
  from a b du dr df dw dc dd vl vb vo vd di e show ?thesis by blast
qed

section \<open>Whether trust can be changed\<close>

lemma getUriTrustInfo_trusted_entry:
  assumes "trusted (getUriTrustInfo ops entries u)"
  shows "getUriTrustInfo ops entries u \<in> set entries
       \<and> isEqualOrParent ops u (uri (getUriTrustInfo ops entries u))"
proof (cases "\<exists>e\<in>set entries. isEqualOrParent ops u (uri e)")
  case True
  from getUriTrustInfo_some [OF True]
  obtain xs e ys where "entries = xs @ e # ys" "isEqualOrParent ops u (uri e)"
     "getUriTrustInfo ops entries u = e"
    by blast
  then show ?thesis by simp
next
  case False
  then have "getUriTrustInfo ops entries u = \<lparr>uri = u, trusted = False\<rparr>"
    using getUriTrustInfo_none [of entries ops u] by blast
  with assms show ?thesis by simp
qed

text \<open>
  Claim C4. \<open>canSetWorkspaceTrust\<close> answers with the first matching row: false when a
  remote authority is configured and is either unresolved or carries an explicit
  \<^verbatim>\<open>isTrusted\<close>; true for an empty workspace; true when the workspace is not trusted; and
  for a trusted workspace true exactly when it is a single folder of the \<^verbatim>\<open>file\<close> scheme,
  the lookup of the folder returns a trusted entry of the list whose URI is equal to the
  folder's, and the lookup of the folder's parent directory is not trusted.
\<close>

theorem canSetWorkspaceTrust_table:
  "canSetWorkspaceTrust env s =
     (if hasRemoteAuthority env
          \<and> (remoteAuthorityResult s = None
              \<or> (\<exists>b. remoteIsTrusted (remoteAuthorityResult s) = Some b))
      then False
      else if workbenchState env = EMPTY then True
      else if \<not> isWorkpaceTrusted s then True
      else (\<exists>w. workspaceIdentifier env = SingleFolderWorkspaceIdentifier w
              \<and> scheme (uriOps env) w = ''file''
              \<and> (\<exists>e\<in>set (uriTrustInfo s).
                    getUriTrustInfo (uriOps env) (uriTrustInfo s) w = e
                    \<and> trusted e \<and> isEqual (uriOps env) w (uri e))
              \<and> \<not> trusted (getUriTrustInfo (uriOps env) (uriTrustInfo s)
                     (uriFile (uriOps env) (parentPath (uriOps env) (fsPath (uriOps env) w))))))"
proof -
  show ?thesis
  proof (cases "workspaceIdentifier env")
    case (SingleFolderWorkspaceIdentifier w)
    then show ?thesis
      by (auto simp add: canSetWorkspaceTrust_def canSetParentFolderTrust_def Let_def
            intro: getUriTrustInfo_trusted_entry [THEN conjunct1])
  next
    case (MultiRootWorkspaceIdentifier c)
    then show ?thesis by (simp add: canSetWorkspaceTrust_def)
  next
    case EmptyWorkspaceIdentifier
    then show ?thesis by (simp add: canSetWorkspaceTrust_def)
  qed
qed

theorem canSetWorkspaceTrust_table_witness:
  "\<not> canSetWorkspaceTrust (projEnv\<lparr>remoteAuthority := Some ''wsl+ubuntu'',
          workbenchState := EMPTY\<rparr>) freshService
   \<and> \<not> canSetWorkspaceTrust (projEnv\<lparr>remoteAuthority := Some ''wsl+ubuntu''\<rparr>)
         (freshService\<lparr>remoteAuthorityResult :=
            Some (ResolverResult (Some (ResolvedOptions (Some False))))\<rparr>)
   \<and> canSetWorkspaceTrust (projEnv\<lparr>workbenchState := EMPTY\<rparr>)
         (freshService\<lparr>mementoIsTrusted := Some True\<rparr>)
   \<and> canSetWorkspaceTrust projEnv freshService
   \<and> canSetWorkspaceTrust projEnv
         (freshService\<lparr>uriTrustInfo := [\<lparr>uri = ''/proj'', trusted = True\<rparr>],
            mementoIsTrusted := Some True\<rparr>)
   \<and> \<not> canSetWorkspaceTrust projEnv
         (freshService\<lparr>uriTrustInfo := [\<lparr>uri = ''/'', trusted = True\<rparr>],
            mementoIsTrusted := Some True\<rparr>)
   \<and> \<not> canSetWorkspaceTrust projEnv
         (freshService\<lparr>uriTrustInfo :=
              [\<lparr>uri = ''/'', trusted = True\<rparr>, \<lparr>uri = ''/proj'', trusted = True\<rparr>],
            mementoIsTrusted := Some True\<rparr>)
   \<and> \<not> canSetWorkspaceTrust
         (projEnv\<lparr>workbenchState := WORKSPACE, folders := [''/proj'', ''/lib''],
            configuration := Some ''/ws/my.code-workspace'',
            workspaceIdentifier := MultiRootWorkspaceIdentifier ''/ws/my.code-workspace''\<rparr>)
         (freshService\<lparr>uriTrustInfo := [\<lparr>uri = ''/'', trusted = True\<rparr>],
            mementoIsTrusted := Some True\<rparr>)"
proof -
  note defs = projEnv_def freshService_def hasRemoteAuthority_def isWorkpaceTrusted_def
        get_isTrusted_def posixOps_def posixDirname_def getUriTrustInfo_def
  have 1: "\<not> canSetWorkspaceTrust (projEnv\<lparr>remoteAuthority := Some ''wsl+ubuntu'',
          workbenchState := EMPTY\<rparr>) freshService"
    using canSetWorkspaceTrust_table
      [of "projEnv\<lparr>remoteAuthority := Some ''wsl+ubuntu'', workbenchState := EMPTY\<rparr>"
          freshService]
    by (simp add: defs)
  have 2: "\<not> canSetWorkspaceTrust (projEnv\<lparr>remoteAuthority := Some ''wsl+ubuntu''\<rparr>)
         (freshService\<lparr>remoteAuthorityResult :=
            Some (ResolverResult (Some (ResolvedOptions (Some False))))\<rparr>)"
    using canSetWorkspaceTrust_table
      [of "projEnv\<lparr>remoteAuthority := Some ''wsl+ubuntu''\<rparr>"
          "freshService\<lparr>remoteAuthorityResult :=
            Some (ResolverResult (Some (ResolvedOptions (Some False))))\<rparr>"]
    by (auto simp add: defs)
  have 3: "canSetWorkspaceTrust (projEnv\<lparr>workbenchState := EMPTY\<rparr>)
         (freshService\<lparr>mementoIsTrusted := Some True\<rparr>)"
    using canSetWorkspaceTrust_table
      [of "projEnv\<lparr>workbenchState := EMPTY\<rparr>" "freshService\<lparr>mementoIsTrusted := Some True\<rparr>"]
    by (simp add: defs)
  have 4: "canSetWorkspaceTrust projEnv freshService"
    using canSetWorkspaceTrust_table [of projEnv freshService]
    by (simp add: defs)
  have 5: "canSetWorkspaceTrust projEnv
         (freshService\<lparr>uriTrustInfo := [\<lparr>uri = ''/proj'', trusted = True\<rparr>],
            mementoIsTrusted := Some True\<rparr>)"
    using canSetWorkspaceTrust_table
      [of projEnv "freshService\<lparr>uriTrustInfo := [\<lparr>uri = ''/proj'', trusted = True\<rparr>],
            mementoIsTrusted := Some True\<rparr>"]
    by (simp add: defs)
  have 6: "\<not> canSetWorkspaceTrust projEnv
         (freshService\<lparr>uriTrustInfo := [\<lparr>uri = ''/'', trusted = True\<rparr>],
            mementoIsTrusted := Some True\<rparr>)"
    using canSetWorkspaceTrust_table
      [of projEnv "freshService\<lparr>uriTrustInfo := [\<lparr>uri = ''/'', trusted = True\<rparr>],
            mementoIsTrusted := Some True\<rparr>"]
    by (simp add: defs)
  have 7: "\<not> canSetWorkspaceTrust projEnv
         (freshService\<lparr>uriTrustInfo :=
              [\<lparr>uri = ''/'', trusted = True\<rparr>, \<lparr>uri = ''/proj'', trusted = True\<rparr>],
            mementoIsTrusted := Some True\<rparr>)"
    using canSetWorkspaceTrust_table
      [of projEnv "freshService\<lparr>uriTrustInfo :=
              [\<lparr>uri = ''/'', trusted = True\<rparr>, \<lparr>uri = ''/proj'', trusted = True\<rparr>],
            mementoIsTrusted := Some True\<rparr>"]
    by (simp add: defs)
  have 8: "\<not> canSetWorkspaceTrust
         (projEnv\<lparr>workbenchState := WORKSPACE, folders := [''/proj'', ''/lib''],
            configuration := Some ''/ws/my.code-workspace'',
            workspaceIdentifier := MultiRootWorkspaceIdentifier ''/ws/my.code-workspace''\<rparr>)
         (freshService\<lparr>uriTrustInfo := [\<lparr>uri = ''/'', trusted = True\<rparr>],
            mementoIsTrusted := Some True\<rparr>)"
    using canSetWorkspaceTrust_table
      [of "projEnv\<lparr>workbenchState := WORKSPACE, folders := [''/proj'', ''/lib''],
            configuration := Some ''/ws/my.code-workspace'',
            workspaceIdentifier := MultiRootWorkspaceIdentifier ''/ws/my.code-workspace''\<rparr>"
          "freshService\<lparr>uriTrustInfo := [\<lparr>uri = ''/'', trusted = True\<rparr>],
            mementoIsTrusted := Some True\<rparr>"]
    by (simp add: defs)
  from 1 2 3 4 5 6 7 8 show ?thesis by blast
qed

section \<open>Adding and removing trusted URIs\<close>

lemma filter_same_length:
  "length (filter P xs) = length xs \<Longrightarrow> filter P xs = xs"
proof -
  assume a: "length (filter P xs) = length xs"
  have "\<forall>x\<in>set xs. P x"
  proof (rule ccontr)
    assume "\<not> (\<forall>x\<in>set xs. P x)"
    then obtain x where "x \<in> set xs" "\<not> P x" by blast
    then have "length (filter P xs) < length xs" by (rule length_filter_less)
    with a show False by simp
  qed
  then show ?thesis by simp
qed

lemma setUrisTrust_loop_add:
  "setUrisTrust_loop ops True us (es, c) = (es', c') \<Longrightarrow>
     c' = (c \<or> es' \<noteq> es) \<and> length es \<le> length es'"
proof (induction us arbitrary: es c)
  case Nil
  then show ?case by auto
next
  case (Cons u us)
  show ?case
  proof (cases "find (\<lambda>trustInfo. isEqual ops (uri trustInfo) u) es")
    case None
    have "setUrisTrust_loop ops True (u # us) (es, c)
          = setUrisTrust_loop ops True us (es @ [\<lparr>uri = u, trusted = True\<rparr>], True)"
      by (simp add: None)
    with Cons.prems
    have "setUrisTrust_loop ops True us (es @ [\<lparr>uri = u, trusted = True\<rparr>], True) = (es', c')"
      by (simp only:)
    from Cons.IH [OF this]
    have "c'" and "length (es @ [\<lparr>uri = u, trusted = True\<rparr>]) \<le> length es'" by simp_all
    then have "c'" and "length es < length es'" by simp_all
    then show ?thesis by auto
  next
    case (Some a)
    have "setUrisTrust_loop ops True (u # us) (es, c) = setUrisTrust_loop ops True us (es, c)"
      by (simp add: Some)
    with Cons.prems have "setUrisTrust_loop ops True us (es, c) = (es', c')"
      by (simp only:)
    from Cons.IH [OF this] show ?thesis .
  qed
qed

lemma setUrisTrust_loop_remove:
  "setUrisTrust_loop ops False us (es, c) = (es', c') \<Longrightarrow>
     c' = (c \<or> es' \<noteq> es) \<and> length es' \<le> length es"
proof (induction us arbitrary: es c)
  case Nil
  then show ?case by auto
next
  case (Cons u us)
  let ?es1 = "filter (\<lambda>trustInfo. \<not> isEqual ops (uri trustInfo) u) es"
  show ?case
  proof (cases "length es \<noteq> length ?es1")
    case True
    have "setUrisTrust_loop ops False (u # us) (es, c)
          = setUrisTrust_loop ops False us (?es1, True)"
      using True by (simp add: Let_def)
    with Cons.prems have "setUrisTrust_loop ops False us (?es1, True) = (es', c')"
      by (simp only:)
    from Cons.IH [OF this] have "c'" and "length es' \<le> length ?es1" by simp_all
    moreover have "length ?es1 < length es"
      using True length_filter_le [of "\<lambda>trustInfo. \<not> isEqual ops (uri trustInfo) u" es]
      by linarith
    ultimately have "c'" and "length es' < length es" by simp_all
    then show ?thesis by auto
  next
    case False
    then have "length ?es1 = length es" by simp
    then have e: "?es1 = es" by (rule filter_same_length)
    have "setUrisTrust_loop ops False (u # us) (es, c)
          = setUrisTrust_loop ops False us (?es1, c)"
      using False by (simp add: Let_def)
    with Cons.prems have "setUrisTrust_loop ops False us (?es1, c) = (es', c')"
      by (simp only:)
    then have "setUrisTrust_loop ops False us (es, c) = (es', c')" by (simp only: e)
    from Cons.IH [OF this] show ?thesis .
  qed
qed

lemma setUrisTrust_loop_changed:
  "setUrisTrust_loop ops t us (es, c) = (es', c') \<Longrightarrow> c' = (c \<or> es' \<noteq> es)"
proof (cases t)
  case True
  assume "setUrisTrust_loop ops t us (es, c) = (es', c')"
  with True have "setUrisTrust_loop ops True us (es, c) = (es', c')" by simp
  from setUrisTrust_loop_add [OF this] show ?thesis by blast
next
  case False
  assume "setUrisTrust_loop ops t us (es, c) = (es', c')"
  with False have "setUrisTrust_loop ops False us (es, c) = (es', c')" by simp
  from setUrisTrust_loop_remove [OF this] show ?thesis by blast
qed

lemma setUrisTrust_char:
  "setUrisTrust env uris t s =
     (if uriTrustInfo (snd (setUrisTrust env uris t s)) = uriTrustInfo s then (None, s)
      else saveTrustInfo env (s\<lparr>uriTrustInfo := uriTrustInfo (snd (setUrisTrust env uris t s))\<rparr>))"
proof -
  obtain es c where l: "setUrisTrust_loop (uriOps env) t uris (uriTrustInfo s, False) = (es, c)"
    by (cases "setUrisTrust_loop (uriOps env) t uris (uriTrustInfo s, False)")
  from setUrisTrust_loop_changed [OF l] have c: "c = (es \<noteq> uriTrustInfo s)" by simp
  have e: "uriTrustInfo (snd (setUrisTrust env uris t s)) = es"
    by (simp add: setUrisTrust_entries l)
  show ?thesis
  proof (cases c)
    case True
    then show ?thesis using c unfolding e by (simp add: setUrisTrust_def l)
  next
    case False
    then have "es = uriTrustInfo s" using c by simp
    then show ?thesis using False unfolding e by (simp add: setUrisTrust_def l)
  qed
qed

lemma updateWorkspaceTrust_trace:
  "\<exists>evs. trace (snd (updateWorkspaceTrust env arg s)) = trace s @ evs"
proof -
  obtain t where nv: "(case arg of None \<Rightarrow> calculateWorkspaceTrust env s | Some b \<Rightarrow> Inr b) = Inr t"
    using calculateWorkspaceTrust_total [of env s] by (cases arg) auto
  show ?thesis
  proof (cases "isWorkpaceTrusted s = t")
    case True
    then show ?thesis using nv by (simp add: updateWorkspaceTrust_def)
  next
    case False
    let ?s1 = "set_isTrusted (Some t) s"
    obtain r s2 where p: "participate_loop t (participants ?s1) ?s1 = (r, s2)"
      by (cases "participate_loop t (participants ?s1) ?s1")
    have "\<exists>evs. trace s2 = trace ?s1 @ evs"
      using p by (auto simp: participate_loop_eq split: option.splits)
    then obtain evs where m: "trace s2 = trace s @ evs"
      by (auto simp: set_isTrusted_def saveMemento_def fire_def Let_def)
    have "snd (updateWorkspaceTrust env arg s) = s2
          \<or> snd (updateWorkspaceTrust env arg s) = fireDidChangeTrust t s2"
      using nv False p
      by (auto simp: updateWorkspaceTrust_def WorkspaceTrustTransitionManager_participate_def
            split: option.splits)
    then show ?thesis
    proof
      assume "snd (updateWorkspaceTrust env arg s) = s2"
      then show ?thesis by (simp add: m)
    next
      assume "snd (updateWorkspaceTrust env arg s) = fireDidChangeTrust t s2"
      then show ?thesis by (simp add: m fireDidChangeTrust_def fire_def)
    qed
  qed
qed

lemma saveTrustInfo_effects:
  "storage (snd (saveTrustInfo env s)) = Some (Info (Some (uriTrustInfo s)))
   \<and> (\<exists>evs. trace (snd (saveTrustInfo env s))
              = trace s @ StorageStore # DidChangeTrustedFolders # evs)"
proof -
  let ?s2 = "fire DidChangeTrustedFolders
               (fire StorageStore (s\<lparr>storage := Some (Info (Some (uriTrustInfo s)))\<rparr>))"
  have e: "saveTrustInfo env s = updateWorkspaceTrust env None ?s2"
    by (simp add: saveTrustInfo_def Let_def)
  from updateWorkspaceTrust_trace [of env None ?s2]
  obtain evs where "trace (snd (updateWorkspaceTrust env None ?s2)) = trace ?s2 @ evs" by blast
  then have "trace (snd (saveTrustInfo env s))
              = trace s @ StorageStore # DidChangeTrustedFolders # evs"
    by (simp add: e fire_def)
  moreover have "storage (snd (saveTrustInfo env s)) = Some (Info (Some (uriTrustInfo s)))"
    by (simp add: e updateWorkspaceTrust_keeps fire_def)
  ultimately show ?thesis by blast
qed

lemma setUrisTrust_add_entries:
  "uriTrustInfo (snd (setUrisTrust env [u] True s))
     = (if \<exists>e\<in>set (uriTrustInfo s). isEqual (uriOps env) (uri e) u then uriTrustInfo s
        else uriTrustInfo s @ [\<lparr>uri = u, trusted = True\<rparr>])"
proof (cases "find (\<lambda>trustInfo. isEqual (uriOps env) (uri trustInfo) u) (uriTrustInfo s)")
  case None
  then have "\<not> (\<exists>e\<in>set (uriTrustInfo s). isEqual (uriOps env) (uri e) u)"
    by (simp add: find_None_iff)
  then show ?thesis using None by (simp add: setUrisTrust_entries)
next
  case (Some a)
  then have "find (\<lambda>trustInfo. isEqual (uriOps env) (uri trustInfo) u) (uriTrustInfo s) \<noteq> None"
    by simp
  then have "\<exists>e\<in>set (uriTrustInfo s). isEqual (uriOps env) (uri e) u"
    by (auto simp: find_None_iff)
  then show ?thesis using Some by (simp add: setUrisTrust_entries)
qed

lemma setUrisTrust_remove_entries:
  "uriTrustInfo (snd (setUrisTrust env [u] False s))
     = filter (\<lambda>e. \<not> isEqual (uriOps env) (uri e) u) (uriTrustInfo s)"
  by (simp add: setUrisTrust_entries Let_def)

lemma setUrisTrust_twice:
  assumes "isEqual (uriOps env) u u"
  shows "setUrisTrust env [u] True (snd (setUrisTrust env [u] True s))
         = (None, snd (setUrisTrust env [u] True s))"
proof -
  let ?s1 = "snd (setUrisTrust env [u] True s)"
  have "\<exists>e\<in>set (uriTrustInfo ?s1). isEqual (uriOps env) (uri e) u"
    using assms by (auto simp: setUrisTrust_add_entries)
  then have "uriTrustInfo (snd (setUrisTrust env [u] True ?s1)) = uriTrustInfo ?s1"
    by (simp only: setUrisTrust_add_entries [of env u ?s1] if_True)
  then show ?thesis
    by (subst setUrisTrust_char [of env "[u]" True ?s1]) simp
qed

text \<open>
  Claim C5. \<open>setUrisTrust [u] True\<close> adds an entry for \<open>u\<close> only when no entry is equal
  to \<open>u\<close> under \<open>isEqual\<close>, so (with \<open>u\<close> equal to itself) a second call changes nothing
  at all: no entry, no stored value, no event. \<open>setUrisTrust [u] False\<close> removes every
  entry equal to \<open>u\<close>. For any call, when the entries are left as they were the call does
  nothing; when they changed, the call is \<open>saveTrustInfo\<close> on the new entries, which
  stores them, fires the trusted-folders event and then runs \<open>updateWorkspaceTrust\<close>.
\<close>

theorem setUrisTrust_idempotent:
  "(isEqual (uriOps env) u u \<longrightarrow>
      setUrisTrust env [u] True (snd (setUrisTrust env [u] True s))
        = (None, snd (setUrisTrust env [u] True s)))
   \<and> uriTrustInfo (snd (setUrisTrust env [u] True s))
       = (if \<exists>e\<in>set (uriTrustInfo s). isEqual (uriOps env) (uri e) u then uriTrustInfo s
          else uriTrustInfo s @ [\<lparr>uri = u, trusted = True\<rparr>])
   \<and> uriTrustInfo (snd (setUrisTrust env [u] False s))
       = filter (\<lambda>e. \<not> isEqual (uriOps env) (uri e) u) (uriTrustInfo s)
   \<and> (uriTrustInfo (snd (setUrisTrust env uris t s)) = uriTrustInfo s
        \<longrightarrow> setUrisTrust env uris t s = (None, s))
   \<and> (uriTrustInfo (snd (setUrisTrust env uris t s)) \<noteq> uriTrustInfo s
        \<longrightarrow> setUrisTrust env uris t s
              = saveTrustInfo env
                  (s\<lparr>uriTrustInfo := uriTrustInfo (snd (setUrisTrust env uris t s))\<rparr>)
            \<and> storage (snd (setUrisTrust env uris t s))
              = Some (Info (Some (uriTrustInfo (snd (setUrisTrust env uris t s)))))
            \<and> (\<exists>evs. trace (snd (setUrisTrust env uris t s))
                       = trace s @ StorageStore # DidChangeTrustedFolders # evs))"
proof (intro conjI impI)
  show "setUrisTrust env [u] True (snd (setUrisTrust env [u] True s))
        = (None, snd (setUrisTrust env [u] True s))" if "isEqual (uriOps env) u u"
    using that by (rule setUrisTrust_twice)
  show "uriTrustInfo (snd (setUrisTrust env [u] True s))
       = (if \<exists>e\<in>set (uriTrustInfo s). isEqual (uriOps env) (uri e) u then uriTrustInfo s
          else uriTrustInfo s @ [\<lparr>uri = u, trusted = True\<rparr>])"
    by (rule setUrisTrust_add_entries)
  show "uriTrustInfo (snd (setUrisTrust env [u] False s))
       = filter (\<lambda>e. \<not> isEqual (uriOps env) (uri e) u) (uriTrustInfo s)"
    by (rule setUrisTrust_remove_entries)
  show "setUrisTrust env uris t s = (None, s)"
    if "uriTrustInfo (snd (setUrisTrust env uris t s)) = uriTrustInfo s"
    by (subst setUrisTrust_char [of env uris t s]) (simp add: that)
next
  let ?es = "uriTrustInfo (snd (setUrisTrust env uris t s))"
  assume ch: "?es \<noteq> uriTrustInfo s"
  show e: "setUrisTrust env uris t s = saveTrustInfo env (s\<lparr>uriTrustInfo := ?es\<rparr>)"
    by (subst setUrisTrust_char [of env uris t s]) (simp add: ch)
  have "snd (setUrisTrust env uris t s) = snd (saveTrustInfo env (s\<lparr>uriTrustInfo := ?es\<rparr>))"
    by (subst e) simp
  then have sn: "storage (snd (setUrisTrust env uris t s))
                  = storage (snd (saveTrustInfo env (s\<lparr>uriTrustInfo := ?es\<rparr>)))"
    and tr: "trace (snd (setUrisTrust env uris t s))
                  = trace (snd (saveTrustInfo env (s\<lparr>uriTrustInfo := ?es\<rparr>)))"
    by (rule arg_cong)+
  from saveTrustInfo_effects [of env "s\<lparr>uriTrustInfo := ?es\<rparr>"]
  show "storage (snd (setUrisTrust env uris t s)) = Some (Info (Some ?es))"
    by (simp add: sn)
  from saveTrustInfo_effects [of env "s\<lparr>uriTrustInfo := ?es\<rparr>"]
  show "\<exists>evs. trace (snd (setUrisTrust env uris t s))
                       = trace s @ StorageStore # DidChangeTrustedFolders # evs"
    by (simp add: tr)
qed

theorem setUrisTrust_idempotent_witness:
  "setUrisTrust projEnv [''/proj''] True (snd (setUrisTrust projEnv [''/proj''] True freshService))
     = (None, snd (setUrisTrust projEnv [''/proj''] True freshService))
   \<and> uriTrustInfo (snd (setUrisTrust projEnv [''/proj''] True freshService))
       = [\<lparr>uri = ''/proj'', trusted = True\<rparr>]
   \<and> storage (snd (setUrisTrust projEnv [''/proj''] True freshService))
       = Some (Info (Some [\<lparr>uri = ''/proj'', trusted = True\<rparr>]))
   \<and> setUrisTrust projEnv [''/other''] False freshService = (None, freshService)"
proof -
  have ops: "uriOps projEnv = posixOps" by (simp add: projEnv_def)
  have refl: "isEqual (uriOps projEnv) ''/proj'' ''/proj''"
    by (simp add: ops posixOps_def)
  note A = setUrisTrust_idempotent
             [where env = projEnv and u = "''/proj''" and s = freshService
                and uris = "[''/proj'']" and t = True]
  note B = setUrisTrust_idempotent
             [where env = projEnv and u = "''/other''" and s = freshService
                and uris = "[''/other'']" and t = False]
  have 1: "setUrisTrust projEnv [''/proj''] True
             (snd (setUrisTrust projEnv [''/proj''] True freshService))
           = (None, snd (setUrisTrust projEnv [''/proj''] True freshService))"
    using A refl by blast
  have "uriTrustInfo (snd (setUrisTrust projEnv [''/proj''] True freshService))
       = (if \<exists>e\<in>set (uriTrustInfo freshService). isEqual (uriOps projEnv) (uri e) ''/proj''
          then uriTrustInfo freshService
          else uriTrustInfo freshService @ [\<lparr>uri = ''/proj'', trusted = True\<rparr>])"
    using A by blast
  then have 2: "uriTrustInfo (snd (setUrisTrust projEnv [''/proj''] True freshService))
       = [\<lparr>uri = ''/proj'', trusted = True\<rparr>]"
    by (simp add: freshService_def)
  have fs0: "uriTrustInfo freshService = []"
    by (simp add: freshService_def)
  have ch: "uriTrustInfo (snd (setUrisTrust projEnv [''/proj''] True freshService))
            \<noteq> uriTrustInfo freshService"
    by (simp add: 2 fs0)
  have "storage (snd (setUrisTrust projEnv [''/proj''] True freshService))
       = Some (Info (Some (uriTrustInfo (snd (setUrisTrust projEnv [''/proj''] True freshService)))))"
    using A ch by blast
  then have 3: "storage (snd (setUrisTrust projEnv [''/proj''] True freshService))
       = Some (Info (Some [\<lparr>uri = ''/proj'', trusted = True\<rparr>]))"
    by (simp only: 2)
  have "uriTrustInfo (snd (setUrisTrust projEnv [''/other''] False freshService))
       = filter (\<lambda>e. \<not> isEqual (uriOps projEnv) (uri e) ''/other'') (uriTrustInfo freshService)"
    using B by blast
  then have "uriTrustInfo (snd (setUrisTrust projEnv [''/other''] False freshService))
       = uriTrustInfo freshService"
    by (simp add: freshService_def)
  then have 4: "setUrisTrust projEnv [''/other''] False freshService = (None, freshService)"
    using B by blast
  from 1 2 3 4 show ?thesis by blast
qed

section \<open>Only trusted entries are kept\<close>

lemma loadTrustInfo_trusted:
  "loadTrustInfo env s = Inr info \<Longrightarrow> \<forall>e\<in>set info. trusted e"
  by (auto simp: loadTrustInfo_def split: option.splits StoredValue.splits)

lemma loadTrustInfo_filter:
  "storage s = Some (Info (Some infos)) \<Longrightarrow>
   loadTrustInfo env s
     = Inr (map (\<lambda>i. \<lparr>uri = revive (uriOps env) (uri i), trusted = True\<rparr>)
              (filter trusted infos))"
  by (simp add: loadTrustInfo_def filter_map comp_def cong: map_cong)

lemma loadTrustInfo_returns:
  "storage s \<noteq> Some NonObject \<Longrightarrow> \<exists>info. loadTrustInfo env s = Inr info"
  by (simp add: loadTrustInfo_def split: option.splits StoredValue.splits)

lemma loadTrustInfo_throws:
  "storage s = Some NonObject \<Longrightarrow> loadTrustInfo env s = Inl ''TypeError''"
  by (simp add: loadTrustInfo_def)

lemma setUrisTrust_loop_trusted:
  "\<forall>e\<in>set es. trusted e \<Longrightarrow>
   \<forall>e\<in>set (fst (setUrisTrust_loop ops t us (es, c))). trusted e"
proof (induction us arbitrary: es c)
  case Nil
  then show ?case by simp
next
  case (Cons u us)
  show ?case
  proof (cases t)
    case True
    show ?thesis
    proof (cases "find (\<lambda>trustInfo. isEqual ops (uri trustInfo) u) es")
      case None
      have "\<forall>e\<in>set (es @ [\<lparr>uri = u, trusted = True\<rparr>]). trusted e"
        using Cons.prems by simp
      from Cons.IH [OF this, of True] show ?thesis using True None by simp
    next
      case (Some a)
      from Cons.IH [OF Cons.prems, of c] show ?thesis using True Some by simp
    qed
  next
    case False
    let ?es1 = "filter (\<lambda>trustInfo. \<not> isEqual ops (uri trustInfo) u) es"
    have p: "\<forall>e\<in>set ?es1. trusted e" using Cons.prems by simp
    show ?thesis
    proof (cases "length es \<noteq> length ?es1")
      case True
      from Cons.IH [OF p, of True] show ?thesis using False True by (simp add: Let_def)
    next
      case same: False
      from Cons.IH [OF p, of c] show ?thesis using False same by (simp add: Let_def)
    qed
  qed
qed

lemma setTrustedFolders_loop_trusted:
  "\<forall>e\<in>set es. trusted e \<Longrightarrow> \<forall>e\<in>set (setTrustedFolders_loop ops us es). trusted e"
proof (induction us arbitrary: es)
  case Nil
  then show ?case by simp
next
  case (Cons u us)
  let ?c = "removeTrailingPathSeparator ops u"
  show ?case
  proof (cases "list_ex (\<lambda>addedUri. isEqual ops (uri addedUri) ?c) es")
    case True
    from Cons.IH [OF Cons.prems] show ?thesis using True by (simp add: Let_def)
  next
    case False
    have "\<forall>e\<in>set (es @ [\<lparr>uri = ?c, trusted = True\<rparr>]). trusted e"
      using Cons.prems by simp
    from Cons.IH [OF this] show ?thesis using False by (simp add: Let_def)
  qed
qed

lemma setTrustedFolders_entries:
  "uriTrustInfo (snd (setTrustedFolders env uris s)) = setTrustedFolders_loop (uriOps env) uris []"
  by (simp add: setTrustedFolders_def saveTrustInfo_entries)

lemma initializeWorkspaceTrust_entries:
  "uriTrustInfo (snd (initializeWorkspaceTrust env s)) = uriTrustInfo s
   \<or> (\<exists>info. loadTrustInfo env s = Inr info
        \<and> fst (initializeWorkspaceTrust env s) = None
        \<and> uriTrustInfo (snd (initializeWorkspaceTrust env s)) = info)"
proof -
  from initializeWorkspaceTrust_cases [of env s]
  consider e where "initializeWorkspaceTrust env s = (Some e, s)"
    | info t where "loadTrustInfo env s = Inr info"
        "initializeWorkspaceTrust env s
           = (None, set_isTrusted (Some t) (s\<lparr>uriTrustInfo := info\<rparr>))"
    by blast
  then show ?thesis
  proof cases
    case 1
    then show ?thesis by simp
  next
    case 2
    have "uriTrustInfo (set_isTrusted (Some t) (s\<lparr>uriTrustInfo := info\<rparr>)) = info"
      by (simp add: set_isTrusted_def saveMemento_def fire_def Let_def)
    with 2 show ?thesis by simp
  qed
qed

lemma initializeWorkspaceTrust_resolves:
  assumes "storage s \<noteq> Some NonObject"
  shows "fst (initializeWorkspaceTrust env s) = None
         \<and> loadTrustInfo env s = Inr (uriTrustInfo (snd (initializeWorkspaceTrust env s)))"
proof -
  from loadTrustInfo_returns [OF assms] obtain info0 where l: "loadTrustInfo env s = Inr info0"
    by blast
  from initializeWorkspaceTrust_cases [of env s] l
  obtain t where i: "initializeWorkspaceTrust env s
           = (None, set_isTrusted (Some t) (s\<lparr>uriTrustInfo := info0\<rparr>))"
    by auto
  have "uriTrustInfo (set_isTrusted (Some t) (s\<lparr>uriTrustInfo := info0\<rparr>)) = info0"
    by (simp add: set_isTrusted_def saveMemento_def fire_def Let_def)
  with i l show ?thesis by simp
qed

lemma onDidChangeValue_entries:
  "uriTrustInfo (snd (onDidChangeValue env k d s)) = uriTrustInfo s
   \<or> (\<exists>info. loadTrustInfo env s = Inr info
        \<and> uriTrustInfo (snd (onDidChangeValue env k d s)) = info)"
proof -
  from onDidChangeValue_cases [of env k d s]
  consider "onDidChangeValue env k d s = (None, s)"
    | e where "onDidChangeValue env k d s = (Some e, s)"
    | info where "loadTrustInfo env s = Inr info"
        "onDidChangeValue env k d s
           = updateWorkspaceTrust env None
               (fire DidChangeTrustedFolders (s\<lparr>uriTrustInfo := info\<rparr>))"
    by blast
  then show ?thesis
  proof cases
    case 1
    then show ?thesis by simp
  next
    case 2
    then show ?thesis by simp
  next
    case 3
    have "uriTrustInfo (snd (onDidChangeValue env k d s)) = info"
      by (simp add: 3 updateWorkspaceTrust_keeps fire_def)
    with 3 show ?thesis by blast
  qed
qed

lemma onDidChangeValue_throws:
  "storage s = Some NonObject \<Longrightarrow> onDidChangeValue env True d s = (Some ''TypeError'', s)"
  by (simp add: onDidChangeValue_def loadTrustInfo_def)

lemma initializeWorkspaceTrust_throws:
  "storage s = Some NonObject \<Longrightarrow> initializeWorkspaceTrust env s = (Some ''TypeError'', s)"
  by (simp add: initializeWorkspaceTrust_def loadTrustInfo_def)

lemma setWorkspaceTrust_entries:
  "uriTrustInfo (snd (setWorkspaceTrust env t s)) = uriTrustInfo s
   \<or> (\<exists>us. uriTrustInfo (snd (setWorkspaceTrust env t s))
            = uriTrustInfo (snd (setUrisTrust env us t s)))"
  by (cases "getWorkspaceUris env s")
     (auto simp: setWorkspaceTrust_def updateWorkspaceTrust_keeps)

lemma completeRequest_Some:
  "t \<noteq> requestTrusted s \<Longrightarrow>
   completeRequest env (Some t) s
     = (case setWorkspaceTrust env t s of
          (Some x, y) \<Rightarrow> (Some x, y)
        | (None, y) \<Rightarrow> (None, resolveRequest (Some t) y))"
  by (simp add: completeRequest_def split: prod.splits option.splits)

lemma completeRequest_entries:
  "uriTrustInfo (snd (completeRequest env arg s)) = uriTrustInfo s
   \<or> (\<exists>t. uriTrustInfo (snd (completeRequest env arg s))
            = uriTrustInfo (snd (setWorkspaceTrust env t s)))"
proof -
  have r: "uriTrustInfo (resolveRequest a x) = uriTrustInfo x" for a and x :: "'a Service"
    by (simp add: resolveRequest_def split: option.splits)
  show ?thesis
  proof (cases arg)
    case None
    then show ?thesis by (simp add: completeRequest_def r)
  next
    case (Some t)
    obtain e s1 where w: "setWorkspaceTrust env t s = (e, s1)"
      by (cases "setWorkspaceTrust env t s")
    then have s1: "s1 = snd (setWorkspaceTrust env t s)" by simp
    have "uriTrustInfo (snd (completeRequest env arg s)) = uriTrustInfo s
          \<or> uriTrustInfo (snd (completeRequest env arg s)) = uriTrustInfo s1"
    proof (cases "t = requestTrusted s")
      case True
      then show ?thesis using Some by (simp add: completeRequest_def r)
    next
      case False
      have "completeRequest env (Some t) s
                 = (case setWorkspaceTrust env t s of
                      (Some x, y) \<Rightarrow> (Some x, y)
                    | (None, y) \<Rightarrow> (None, resolveRequest (Some t) y))"
        by (rule completeRequest_Some [OF False])
      then have "completeRequest env arg s
                 = (case (e, s1) of (Some x, y) \<Rightarrow> (Some x, y)
                                  | (None, y) \<Rightarrow> (None, resolveRequest (Some t) y))"
        by (simp only: w Some)
      then show ?thesis by (cases e) (simp_all add: r)
    qed
    then show ?thesis unfolding s1 by blast
  qed
qed

text \<open>
  Claim C6. Whenever \<open>loadTrustInfo\<close> returns, what it returns holds only entries with
  \<open>trusted = True\<close>: of a stored object of the declared type, the entries read with
  \<open>trusted = False\<close> are dropped. It returns unless the stored value is a truthy JSON
  value that is not an object; then it throws, and initialization and the storage
  listener reject and leave the entries as they were. Every operation of the service
  keeps the list free of untrusted entries: initialization and the reload after an
  external change (whatever the changed key and the outcome of the listener's
  comparison of the JSON strings), \<open>setUrisTrust\<close>, \<open>setTrustedFolders\<close>,
  \<open>setWorkspaceTrust\<close>, \<open>updateWorkspaceTrust\<close> and \<open>completeRequest\<close>. Marking a URI
  untrusted leaves no entry equal to it.
\<close>

theorem uriTrustInfo_only_trusted:
  "(\<forall>info. loadTrustInfo env s = Inr info \<longrightarrow> (\<forall>e\<in>set info. trusted e))
   \<and> (storage s = Some (Info (Some infos)) \<longrightarrow>
        loadTrustInfo env s
          = Inr (map (\<lambda>i. \<lparr>uri = revive (uriOps env) (uri i), trusted = True\<rparr>)
                   (filter trusted infos)))
   \<and> (storage s \<noteq> Some NonObject \<longrightarrow>
        fst (initializeWorkspaceTrust env s) = None
        \<and> loadTrustInfo env s = Inr (uriTrustInfo (snd (initializeWorkspaceTrust env s)))
        \<and> (\<forall>e\<in>set (uriTrustInfo (snd (initializeWorkspaceTrust env s))). trusted e))
   \<and> (storage s = Some NonObject \<longrightarrow>
        loadTrustInfo env s = Inl ''TypeError''
        \<and> initializeWorkspaceTrust env s = (Some ''TypeError'', s)
        \<and> onDidChangeValue env True d s = (Some ''TypeError'', s))
   \<and> (\<forall>e\<in>set (uriTrustInfo (snd (setTrustedFolders env uris s))). trusted e)
   \<and> (\<forall>e\<in>set (uriTrustInfo (snd (setUrisTrust env [u] False s))).
         \<not> isEqual (uriOps env) (uri e) u)
   \<and> ((\<forall>e\<in>set (uriTrustInfo s). trusted e) \<longrightarrow>
        (\<forall>e\<in>set (uriTrustInfo (snd (setUrisTrust env uris t s))). trusted e)
        \<and> (\<forall>e\<in>set (uriTrustInfo (snd (onDidChangeValue env k d s))). trusted e)
        \<and> (\<forall>e\<in>set (uriTrustInfo (snd (initializeWorkspaceTrust env s))). trusted e)
        \<and> (\<forall>e\<in>set (uriTrustInfo (snd (setWorkspaceTrust env t s))). trusted e)
        \<and> (\<forall>e\<in>set (uriTrustInfo (snd (updateWorkspaceTrust env arg s))). trusted e)
        \<and> (\<forall>e\<in>set (uriTrustInfo (snd (completeRequest env arg s))). trusted e))"
proof (intro conjI impI allI)
  show "\<forall>e\<in>set info. trusted e" if "loadTrustInfo env s = Inr info" for info
    using that by (rule loadTrustInfo_trusted)
  show "loadTrustInfo env s
          = Inr (map (\<lambda>i. \<lparr>uri = revive (uriOps env) (uri i), trusted = True\<rparr>)
                   (filter trusted infos))" if "storage s = Some (Info (Some infos))"
    using that by (rule loadTrustInfo_filter)
  show "\<forall>e\<in>set (uriTrustInfo (snd (setTrustedFolders env uris s))). trusted e"
    unfolding setTrustedFolders_entries
    by (rule setTrustedFolders_loop_trusted) simp
  show "\<forall>e\<in>set (uriTrustInfo (snd (setUrisTrust env [u] False s))).
         \<not> isEqual (uriOps env) (uri e) u"
    by (simp add: setUrisTrust_remove_entries)
next
  assume ok: "storage s \<noteq> Some NonObject"
  note r = initializeWorkspaceTrust_resolves [OF ok, of env]
  show "fst (initializeWorkspaceTrust env s) = None" using r by blast
  show "loadTrustInfo env s = Inr (uriTrustInfo (snd (initializeWorkspaceTrust env s)))"
    using r by blast
  then show "\<forall>e\<in>set (uriTrustInfo (snd (initializeWorkspaceTrust env s))). trusted e"
    by (rule loadTrustInfo_trusted)
next
  assume bad: "storage s = Some NonObject"
  show "loadTrustInfo env s = Inl ''TypeError''" using bad by (rule loadTrustInfo_throws)
  show "initializeWorkspaceTrust env s = (Some ''TypeError'', s)"
    using bad by (rule initializeWorkspaceTrust_throws)
  show "onDidChangeValue env True d s = (Some ''TypeError'', s)"
    using bad by (rule onDidChangeValue_throws)
next
  assume inv: "\<forall>e\<in>set (uriTrustInfo s). trusted e"
  have su: "\<forall>e\<in>set (uriTrustInfo (snd (setUrisTrust env us b s))). trusted e" for us b
    unfolding setUrisTrust_entries using inv by (rule setUrisTrust_loop_trusted)
  show "\<forall>e\<in>set (uriTrustInfo (snd (setUrisTrust env uris t s))). trusted e"
    by (rule su)
  show "\<forall>e\<in>set (uriTrustInfo (snd (onDidChangeValue env k d s))). trusted e"
    using onDidChangeValue_entries [of env k d s] inv loadTrustInfo_trusted [of env s]
    by metis
  show "\<forall>e\<in>set (uriTrustInfo (snd (initializeWorkspaceTrust env s))). trusted e"
    using initializeWorkspaceTrust_entries [of env s] inv loadTrustInfo_trusted [of env s]
    by metis
  show sw: "\<forall>e\<in>set (uriTrustInfo (snd (setWorkspaceTrust env b s))). trusted e" for b
    using setWorkspaceTrust_entries [of env b s] inv su by metis
  show "\<forall>e\<in>set (uriTrustInfo (snd (updateWorkspaceTrust env arg s))). trusted e"
    using inv by (simp add: updateWorkspaceTrust_keeps)
  show "\<forall>e\<in>set (uriTrustInfo (snd (completeRequest env arg s))). trusted e"
    using completeRequest_entries [of env arg s] inv sw by metis
qed

theorem uriTrustInfo_only_trusted_witness:
  "loadTrustInfo projEnv
      (freshService\<lparr>storage := Some (Info (Some
          [\<lparr>uri = ''/a'', trusted = True\<rparr>, \<lparr>uri = ''/b'', trusted = False\<rparr>]))\<rparr>)
     = Inr [\<lparr>uri = ''/a'', trusted = True\<rparr>]
   \<and> fst (initializeWorkspaceTrust projEnv
      (freshService\<lparr>storage := Some (Info (Some
          [\<lparr>uri = ''/a'', trusted = True\<rparr>, \<lparr>uri = ''/b'', trusted = False\<rparr>]))\<rparr>)) = None
   \<and> uriTrustInfo (snd (initializeWorkspaceTrust projEnv
      (freshService\<lparr>storage := Some (Info (Some
          [\<lparr>uri = ''/a'', trusted = True\<rparr>, \<lparr>uri = ''/b'', trusted = False\<rparr>]))\<rparr>)))
     = [\<lparr>uri = ''/a'', trusted = True\<rparr>]
   \<and> loadTrustInfo projEnv (freshService\<lparr>storage := Some NonObject\<rparr>) = Inl ''TypeError''
   \<and> initializeWorkspaceTrust projEnv (freshService\<lparr>storage := Some NonObject\<rparr>)
     = (Some ''TypeError'', freshService\<lparr>storage := Some NonObject\<rparr>)
   \<and> onDidChangeValue projEnv True True (freshService\<lparr>storage := Some NonObject\<rparr>)
     = (Some ''TypeError'', freshService\<lparr>storage := Some NonObject\<rparr>)
   \<and> filter (\<lambda>e. \<not> trusted e) (uriTrustInfo (snd (setUrisTrust projEnv [''/c''] True
          (freshService\<lparr>uriTrustInfo := [\<lparr>uri = ''/a'', trusted = True\<rparr>]\<rparr>)))) = []
   \<and> filter (\<lambda>e. \<not> trusted e) (uriTrustInfo (snd (onDidChangeValue projEnv True True
          (freshService\<lparr>uriTrustInfo := [\<lparr>uri = ''/a'', trusted = True\<rparr>]\<rparr>)))) = []
   \<and> filter (\<lambda>e. uri e = ''/a'') (uriTrustInfo (snd (setUrisTrust projEnv [''/a''] False
          (freshService\<lparr>uriTrustInfo := [\<lparr>uri = ''/a'', trusted = True\<rparr>]\<rparr>)))) = []
   \<and> uriTrustInfo (snd (setUrisTrust projEnv [''/a''] False
          (freshService\<lparr>uriTrustInfo := [\<lparr>uri = ''/a'', trusted = True\<rparr>]\<rparr>))) = []"
proof -
  let ?stored = "freshService\<lparr>storage := Some (Info (Some
          [\<lparr>uri = ''/a'', trusted = True\<rparr>, \<lparr>uri = ''/b'', trusted = False\<rparr>]))\<rparr>"
  let ?bad = "freshService\<lparr>storage := Some NonObject\<rparr>"
  let ?s = "freshService\<lparr>uriTrustInfo := [\<lparr>uri = ''/a'', trusted = True\<rparr>]\<rparr>"
  have ops: "uriOps projEnv = posixOps" by (simp add: projEnv_def)
  have st: "storage ?stored = Some (Info (Some
          [\<lparr>uri = ''/a'', trusted = True\<rparr>, \<lparr>uri = ''/b'', trusted = False\<rparr>]))"
    by simp
  have sn: "storage ?stored \<noteq> Some NonObject" by simp
  have sb: "storage ?bad = Some NonObject" by simp
  have inv: "\<forall>e\<in>set (uriTrustInfo ?s). trusted e" by simp
  note L = uriTrustInfo_only_trusted
            [where env = projEnv and s = ?stored
               and infos = "[\<lparr>uri = ''/a'', trusted = True\<rparr>, \<lparr>uri = ''/b'', trusted = False\<rparr>]"]
  note B = uriTrustInfo_only_trusted [where env = projEnv and s = ?bad and d = True]
  note A = uriTrustInfo_only_trusted
            [where env = projEnv and s = ?s and uris = "[''/c'']" and t = True and u = "''/a''"
               and k = True and d = True]
  have "loadTrustInfo projEnv ?stored
          = Inr (map (\<lambda>i. \<lparr>uri = revive (uriOps projEnv) (uri i), trusted = True\<rparr>)
              (filter trusted [\<lparr>uri = ''/a'', trusted = True\<rparr>, \<lparr>uri = ''/b'', trusted = False\<rparr>]))"
    using L st by blast
  then have 1: "loadTrustInfo projEnv ?stored = Inr [\<lparr>uri = ''/a'', trusted = True\<rparr>]"
    by (simp add: ops posixOps_def)
  have 2: "fst (initializeWorkspaceTrust projEnv ?stored) = None"
    using L sn by blast
  have "loadTrustInfo projEnv ?stored
          = Inr (uriTrustInfo (snd (initializeWorkspaceTrust projEnv ?stored)))"
    using L sn by blast
  with 1 have 3: "uriTrustInfo (snd (initializeWorkspaceTrust projEnv ?stored))
                    = [\<lparr>uri = ''/a'', trusted = True\<rparr>]"
    by simp
  have 4: "loadTrustInfo projEnv ?bad = Inl ''TypeError''"
    using B sb by blast
  have 5: "initializeWorkspaceTrust projEnv ?bad = (Some ''TypeError'', ?bad)"
    using B sb by blast
  have 6: "onDidChangeValue projEnv True True ?bad = (Some ''TypeError'', ?bad)"
    using B sb by blast
  have "\<forall>e\<in>set (uriTrustInfo (snd (setUrisTrust projEnv [''/c''] True ?s))). trusted e"
    using A inv by blast
  then have 7: "filter (\<lambda>e. \<not> trusted e)
                  (uriTrustInfo (snd (setUrisTrust projEnv [''/c''] True ?s))) = []"
    by (simp add: filter_empty_conv)
  have "\<forall>e\<in>set (uriTrustInfo (snd (onDidChangeValue projEnv True True ?s))). trusted e"
    using A inv by blast
  then have 8: "filter (\<lambda>e. \<not> trusted e)
                  (uriTrustInfo (snd (onDidChangeValue projEnv True True ?s))) = []"
    by (simp add: filter_empty_conv)
  have "\<forall>e\<in>set (uriTrustInfo (snd (setUrisTrust projEnv [''/a''] False ?s))).
          \<not> isEqual (uriOps projEnv) (uri e) ''/a''"
    using A by blast
  then have 9: "filter (\<lambda>e. uri e = ''/a'')
                  (uriTrustInfo (snd (setUrisTrust projEnv [''/a''] False ?s))) = []"
    by (simp add: ops posixOps_def filter_empty_conv)
  have 10: "uriTrustInfo (snd (setUrisTrust projEnv [''/a''] False ?s)) = []"
    by (simp add: setUrisTrust_remove_entries ops posixOps_def)
  from 1 2 3 4 5 6 7 8 9 10 show ?thesis by blast
qed

section \<open>Requests for workspace trust\<close>

lemma saveTrustInfo_keeps:
  "promises (snd (saveTrustInfo env s)) = promises s"
  "modalTrustRequestPromise (snd (saveTrustInfo env s)) = modalTrustRequestPromise s"
  "modalTrustRequestResolver (snd (saveTrustInfo env s)) = modalTrustRequestResolver s"
  by (simp_all add: saveTrustInfo_def Let_def updateWorkspaceTrust_keeps fire_def)

lemma setUrisTrust_keeps:
  "promises (snd (setUrisTrust env uris t s)) = promises s"
  "modalTrustRequestPromise (snd (setUrisTrust env uris t s)) = modalTrustRequestPromise s"
  "modalTrustRequestResolver (snd (setUrisTrust env uris t s)) = modalTrustRequestResolver s"
  by (simp_all add: setUrisTrust_def saveTrustInfo_keeps split: prod.splits)

lemma setWorkspaceTrust_keeps:
  "promises (snd (setWorkspaceTrust env t s)) = promises s"
  "modalTrustRequestPromise (snd (setWorkspaceTrust env t s)) = modalTrustRequestPromise s"
  "modalTrustRequestResolver (snd (setWorkspaceTrust env t s)) = modalTrustRequestResolver s"
  by (simp_all add: setWorkspaceTrust_def updateWorkspaceTrust_keeps setUrisTrust_keeps
        split: sum.splits)

lemma requestWorkspaceTrust_fresh:
  assumes "\<not> requestTrusted s" "modalTrustRequestPromise s = None"
  shows "requestWorkspaceTrust opts s
         = (Follows (length (promises s)),
            s\<lparr>promises := promises s @ [None],
              modalTrustRequestResolver := Some (length (promises s)),
              modalTrustRequestPromise := Some (length (promises s)),
              trace := trace s @ [DidInitiateWorkspaceTrustRequest opts]\<rparr>)"
  using assms by (simp add: requestWorkspaceTrust_def Let_def fire_def)

lemma requestWorkspaceTrust_pending:
  assumes "\<not> requestTrusted s" "modalTrustRequestPromise s = Some p"
  shows "requestWorkspaceTrust opts s = (Follows p, s)"
  using assms by (simp add: requestWorkspaceTrust_def)

lemma requestWorkspaceTrust_coalesced:
  assumes "\<not> requestTrusted s"
  shows "requestWorkspaceTrust o2 (snd (requestWorkspaceTrust o1 s))
         = (fst (requestWorkspaceTrust o1 s), snd (requestWorkspaceTrust o1 s))"
proof (cases "modalTrustRequestPromise s")
  case None
  show ?thesis
    unfolding requestWorkspaceTrust_fresh [OF assms None]
    by (simp add: requestWorkspaceTrust_def assms)
next
  case (Some p)
  show ?thesis
    unfolding requestWorkspaceTrust_pending [OF assms Some]
    by (simp add: requestWorkspaceTrust_pending [OF assms Some])
qed

lemma resolveRequest_pending:
  assumes "modalTrustRequestResolver s = Some (length ps)" "promises s = ps @ [None]"
  shows "promises (resolveRequest arg s)
         = ps @ [Some (Some (case arg of Some b \<Rightarrow> b | None \<Rightarrow> requestTrusted s))]"
  using assms by (simp add: resolveRequest_def settle_def)

lemma completeRequest_pending:
  assumes nt: "\<not> requestTrusted s"
    and r: "modalTrustRequestResolver s = Some (length ps)" and p: "promises s = ps @ [None]"
  shows "(fst (completeRequest env arg s) = None \<longrightarrow>
            promises (snd (completeRequest env arg s))
              = ps @ [Some (Some (case arg of Some b \<Rightarrow> b | None \<Rightarrow> False))])
       \<and> (fst (completeRequest env arg s) \<noteq> None \<longrightarrow>
            promises (snd (completeRequest env arg s)) = ps @ [None])"
proof (cases "arg = None \<or> arg = Some (requestTrusted s)")
  case True
  then have "completeRequest env arg s = (None, resolveRequest arg s)"
    by (auto simp: completeRequest_def)
  then show ?thesis
    using resolveRequest_pending [OF r p, of arg] nt True by auto
next
  case False
  then obtain t where a: "arg = Some t" "t \<noteq> requestTrusted s" by (cases arg) auto
  then have t: "t" using nt by simp
  obtain e s1 where w: "setWorkspaceTrust env t s = (e, s1)"
    by (cases "setWorkspaceTrust env t s")
  have k: "promises s1 = ps @ [None]" "modalTrustRequestResolver s1 = Some (length ps)"
    using setWorkspaceTrust_keeps [of env t s] w r p by simp_all
  have c: "completeRequest env arg s
           = (case (e, s1) of (Some x, y) \<Rightarrow> (Some x, y)
                            | (None, y) \<Rightarrow> (None, resolveRequest (Some t) y))"
    using completeRequest_Some [OF a(2), of env] by (simp only: a(1) w)
  show ?thesis
  proof (cases e)
    case None
    then show ?thesis
      using c resolveRequest_pending [OF k(2) k(1), of "Some t"] t a(1) by simp
  next
    case (Some x)
    then show ?thesis using c k(1) by simp
  qed
qed

text \<open>
  Claim C8. \<open>requestWorkspaceTrust\<close> answers true at once when the cached flag says
  trusted. Otherwise, when a modal request is pending it hands back that same promise
  and changes nothing, so no second initiate-request event is fired: a second call made
  right after a first one returns the same promise and leaves the state of the first.
  Starting with nothing pending, both callers see the promise pending after the two calls,
  and after one \<open>completeRequest\<close> both see the same outcome: the value asked for (the
  cached value when none is given) if the completion resolved, still pending if it rejected.
\<close>

theorem requestWorkspaceTrust_coalesces:
  "(requestTrusted s \<longrightarrow> requestWorkspaceTrust opts s = (Fulfilled True, s))
   \<and> (\<not> requestTrusted s \<and> modalTrustRequestPromise s = Some p
        \<longrightarrow> requestWorkspaceTrust opts s = (Follows p, s))
   \<and> (\<not> requestTrusted s \<longrightarrow>
        (let r1 = fst (requestWorkspaceTrust o1 s); s1 = snd (requestWorkspaceTrust o1 s);
             r2 = fst (requestWorkspaceTrust o2 s1); s2 = snd (requestWorkspaceTrust o2 s1)
         in r2 = r1 \<and> s2 = s1))
   \<and> (\<not> requestTrusted s \<and> modalTrustRequestPromise s = None \<longrightarrow>
        (let r1 = fst (requestWorkspaceTrust o1 s); s1 = snd (requestWorkspaceTrust o1 s);
             r2 = fst (requestWorkspaceTrust o2 s1); s2 = snd (requestWorkspaceTrust o2 s1);
             s3 = snd (completeRequest env arg s2)
         in trace s2 = trace s @ [DidInitiateWorkspaceTrustRequest o1]
            \<and> observe s2 r1 = None \<and> observe s2 r2 = None
            \<and> (fst (completeRequest env arg s2) = None \<longrightarrow>
                  observe s3 r1 = Some (Some (case arg of Some b \<Rightarrow> b | None \<Rightarrow> False))
                  \<and> observe s3 r2 = Some (Some (case arg of Some b \<Rightarrow> b | None \<Rightarrow> False)))
            \<and> (fst (completeRequest env arg s2) \<noteq> None \<longrightarrow>
                  observe s3 r1 = None \<and> observe s3 r2 = None)))"
proof (intro conjI impI)
  show "requestWorkspaceTrust opts s = (Fulfilled True, s)" if "requestTrusted s"
    using that by (simp add: requestWorkspaceTrust_def)
  show "requestWorkspaceTrust opts s = (Follows p, s)"
    if "\<not> requestTrusted s \<and> modalTrustRequestPromise s = Some p"
    using that requestWorkspaceTrust_pending [of s p opts] by blast
  show "let r1 = fst (requestWorkspaceTrust o1 s); s1 = snd (requestWorkspaceTrust o1 s);
             r2 = fst (requestWorkspaceTrust o2 s1); s2 = snd (requestWorkspaceTrust o2 s1)
         in r2 = r1 \<and> s2 = s1" if "\<not> requestTrusted s"
    by (simp add: Let_def requestWorkspaceTrust_coalesced [OF that])
next
  assume h: "\<not> requestTrusted s \<and> modalTrustRequestPromise s = None"
  then have nt: "\<not> requestTrusted s" and np: "modalTrustRequestPromise s = None" by simp_all
  let ?n = "length (promises s)"
  let ?s1 = "s\<lparr>promises := promises s @ [None],
              modalTrustRequestResolver := Some ?n,
              modalTrustRequestPromise := Some ?n,
              trace := trace s @ [DidInitiateWorkspaceTrustRequest o1]\<rparr>"
  have r1: "requestWorkspaceTrust o1 s = (Follows ?n, ?s1)"
    by (rule requestWorkspaceTrust_fresh [OF nt np])
  have r2: "requestWorkspaceTrust o2 ?s1 = (Follows ?n, ?s1)"
    using requestWorkspaceTrust_coalesced [OF nt, of o2 o1] by (simp add: r1)
  have nt1: "\<not> requestTrusted ?s1" using nt by simp
  have res: "modalTrustRequestResolver ?s1 = Some ?n" by simp
  have pr: "promises ?s1 = promises s @ [None]" by simp
  note c = completeRequest_pending [OF nt1 res pr, of env arg]
  have o: "observe ?s1 (Follows ?n) = None"
    by (simp add: observe_def)
  have ok: "observe (snd (completeRequest env arg ?s1)) (Follows ?n)
            = Some (Some (case arg of Some b \<Rightarrow> b | None \<Rightarrow> False))"
    if "fst (completeRequest env arg ?s1) = None"
    using c that by (simp add: observe_def)
  have ko: "observe (snd (completeRequest env arg ?s1)) (Follows ?n) = None"
    if "fst (completeRequest env arg ?s1) \<noteq> None"
    using c that by (simp add: observe_def)
  show "let r1 = fst (requestWorkspaceTrust o1 s); s1 = snd (requestWorkspaceTrust o1 s);
             r2 = fst (requestWorkspaceTrust o2 s1); s2 = snd (requestWorkspaceTrust o2 s1);
             s3 = snd (completeRequest env arg s2)
         in trace s2 = trace s @ [DidInitiateWorkspaceTrustRequest o1]
            \<and> observe s2 r1 = None \<and> observe s2 r2 = None
            \<and> (fst (completeRequest env arg s2) = None \<longrightarrow>
                  observe s3 r1 = Some (Some (case arg of Some b \<Rightarrow> b | None \<Rightarrow> False))
                  \<and> observe s3 r2 = Some (Some (case arg of Some b \<Rightarrow> b | None \<Rightarrow> False)))
            \<and> (fst (completeRequest env arg s2) \<noteq> None \<longrightarrow>
                  observe s3 r1 = None \<and> observe s3 r2 = None)"
    unfolding Let_def r1 fst_conv snd_conv r2
    using o ok ko by simp
qed

theorem requestWorkspaceTrust_coalesces_witness:
  "requestWorkspaceTrust None (freshService\<lparr>requestTrusted := True\<rparr>)
     = (Fulfilled True, freshService\<lparr>requestTrusted := True\<rparr>)
   \<and> requestWorkspaceTrust (Some ''again'')
        (freshService\<lparr>promises := [None], modalTrustRequestResolver := Some 0,
           modalTrustRequestPromise := Some 0\<rparr>)
     = (Follows 0, freshService\<lparr>promises := [None], modalTrustRequestResolver := Some 0,
           modalTrustRequestPromise := Some 0\<rparr>)
   \<and> fst (requestWorkspaceTrust None freshService) = Follows 0
   \<and> fst (requestWorkspaceTrust (Some ''again'') (snd (requestWorkspaceTrust None freshService)))
       = Follows 0
   \<and> trace (snd (requestWorkspaceTrust (Some ''again'')
               (snd (requestWorkspaceTrust None freshService))))
       = [DidInitiateWorkspaceTrustRequest None]
   \<and> observe (snd (completeRequest projEnv (Some True)
         (snd (requestWorkspaceTrust (Some ''again'')
            (snd (requestWorkspaceTrust None freshService)))))) (Follows 0)
       = Some (Some True)
   \<and> observe (snd (completeRequest projEnv (Some True)
         (snd (requestWorkspaceTrust (Some ''again'')
            (snd (requestWorkspaceTrust None
               (freshService\<lparr>participants :=
                  [\<lparr>label = 1, participate = (\<lambda>t. Some ''failed'')\<rparr>]\<rparr>))))))) (Follows 0)
       = None"
proof -
  note defs = completeRequest_def setWorkspaceTrust_def getWorkspaceUris_def
          getCanonicalUri_def hasRemoteAuthority_def setUrisTrust_def saveTrustInfo_def
          updateWorkspaceTrust_def calculateWorkspaceTrust_def isWorkspaceTrustEnabled_def
          getUriTrustInfo_def WorkspaceTrustTransitionManager_participate_def
          set_isTrusted_def saveMemento_def fire_def fireDidChangeTrust_def
          isWorkpaceTrusted_def get_isTrusted_def projEnv_def posixOps_def freshService_def
          Let_def
  let ?s1 = "snd (requestWorkspaceTrust None freshService)"
  let ?s2 = "snd (requestWorkspaceTrust (Some ''again'') ?s1)"
  let ?P = "freshService\<lparr>promises := [None], modalTrustRequestResolver := Some 0,
              modalTrustRequestPromise := Some 0\<rparr>"
  let ?f = "freshService\<lparr>participants :=
              [\<lparr>label = 1, participate = (\<lambda>t. Some ''failed'')\<rparr>]\<rparr>"
  let ?f1 = "snd (requestWorkspaceTrust None ?f)"
  let ?f2 = "snd (requestWorkspaceTrust (Some ''again'') ?f1)"
  have t: "requestTrusted (freshService\<lparr>requestTrusted := True\<rparr>)" by simp
  have h: "\<not> requestTrusted freshService \<and> modalTrustRequestPromise freshService = None"
    by (simp add: freshService_def)
  have hf: "\<not> requestTrusted ?f \<and> modalTrustRequestPromise ?f = None"
    by (simp add: freshService_def)
  have hp: "\<not> requestTrusted ?P \<and> modalTrustRequestPromise ?P = Some 0"
    by (simp add: freshService_def)
  have tr0: "trace freshService = []" by (simp add: freshService_def)
  note A = requestWorkspaceTrust_coalesces
             [where s = "freshService\<lparr>requestTrusted := True\<rparr>" and opts = None]
  note P = requestWorkspaceTrust_coalesces
             [where s = ?P and opts = "Some ''again''" and p = 0]
  note T = requestWorkspaceTrust_coalesces
             [where s = freshService and ?o1.0 = None and ?o2.0 = "Some ''again''"
                and env = projEnv and arg = "Some True", unfolded Let_def]
  note F = requestWorkspaceTrust_coalesces
             [where s = ?f and ?o1.0 = None and ?o2.0 = "Some ''again''"
                and env = projEnv and arg = "Some True", unfolded Let_def]
  have 1: "requestWorkspaceTrust None (freshService\<lparr>requestTrusted := True\<rparr>)
     = (Fulfilled True, freshService\<lparr>requestTrusted := True\<rparr>)"
    using A t by blast
  have 0: "requestWorkspaceTrust (Some ''again'') ?P = (Follows 0, ?P)"
    using P hp by blast
  have 2: "fst (requestWorkspaceTrust None freshService) = Follows 0"
    by (simp add: requestWorkspaceTrust_def freshService_def Let_def)
  have "fst (requestWorkspaceTrust (Some ''again'') ?s1)
        = fst (requestWorkspaceTrust None freshService)"
    using T h by blast
  then have 3: "fst (requestWorkspaceTrust (Some ''again'') ?s1) = Follows 0"
    by (simp only: 2)
  have "trace ?s2 = trace freshService @ [DidInitiateWorkspaceTrustRequest None]"
    using T h by blast
  then have 4: "trace ?s2 = [DidInitiateWorkspaceTrustRequest None]"
    by (simp only: tr0 append_Nil)
  let ?S = "freshService\<lparr>promises := [None], modalTrustRequestResolver := Some 0,
                    modalTrustRequestPromise := Some 0,
                    trace := [DidInitiateWorkspaceTrustRequest None]\<rparr>"
  have s1: "?s1 = ?S"
    by (simp add: requestWorkspaceTrust_def freshService_def Let_def fire_def)
  have "?s2 = ?s1" using T h by blast
  then have s2: "?s2 = ?S" by (simp only: s1)
  have "fst (completeRequest projEnv (Some True) ?S) = None"
    by (simp add: defs)
  then have fin: "fst (completeRequest projEnv (Some True) ?s2) = None"
    by (simp only: s2)
  have "observe (snd (completeRequest projEnv (Some True) ?s2))
          (fst (requestWorkspaceTrust None freshService))
        = Some (Some (case Some True of Some b \<Rightarrow> b | None \<Rightarrow> False))"
    using T h fin by blast
  then have 5: "observe (snd (completeRequest projEnv (Some True) ?s2)) (Follows 0)
                = Some (Some True)"
    by (simp add: 2)
  let ?G = "?f\<lparr>promises := [None], modalTrustRequestResolver := Some 0,
                    modalTrustRequestPromise := Some 0,
                    trace := [DidInitiateWorkspaceTrustRequest None]\<rparr>"
  have f0: "fst (requestWorkspaceTrust None ?f) = Follows 0"
    by (simp add: requestWorkspaceTrust_def freshService_def Let_def)
  have f1: "?f1 = ?G"
    by (simp add: requestWorkspaceTrust_def freshService_def Let_def fire_def)
  have "?f2 = ?f1" using F hf by blast
  then have f2: "?f2 = ?G" by (simp only: f1)
  have "fst (completeRequest projEnv (Some True) ?G) \<noteq> None"
    by (simp add: defs)
  then have rej: "fst (completeRequest projEnv (Some True) ?f2) \<noteq> None"
    unfolding f2 .
  have "observe (snd (completeRequest projEnv (Some True) ?f2))
          (fst (requestWorkspaceTrust None ?f)) = None"
    using F hf rej by blast
  then have 6: "observe (snd (completeRequest projEnv (Some True) ?f2)) (Follows 0) = None"
    by (simp only: f0)
  from 1 0 2 3 4 5 6 show ?thesis by blast
qed

section \<open>Cancelling a request\<close>

lemma cancelRequest_pending:
  assumes "modalTrustRequestResolver s = Some p" "p < length (promises s)" "promises s ! p = None"
  shows "observe (cancelRequest s) (Follows p) = Some None
       \<and> modalTrustRequestPromise (cancelRequest s) = None
       \<and> modalTrustRequestResolver (cancelRequest s) = None
       \<and> trace (cancelRequest s) = trace s"
  using assms by (simp add: cancelRequest_def settle_def observe_def)

text \<open>
  Claim C9. \<open>cancelRequest\<close> does nothing when no request is pending. Otherwise it
  resolves the pending promise with \<^verbatim>\<open>undefined\<close> (which is neither true nor false) and
  clears the pending request. After a request followed by a cancellation, the first
  caller sees \<^verbatim>\<open>undefined\<close>, a later resolution does not change that, and the next
  \<open>requestWorkspaceTrust\<close> creates a new promise, still pending, and fires a new
  initiate-request event.
\<close>

theorem cancelRequest_resolves_undefined:
  "(modalTrustRequestResolver s = None \<longrightarrow> cancelRequest s = s)
   \<and> (modalTrustRequestResolver s = Some p \<and> p < length (promises s) \<and> promises s ! p = None
        \<longrightarrow> observe (cancelRequest s) (Follows p) = Some None
            \<and> modalTrustRequestPromise (cancelRequest s) = None
            \<and> modalTrustRequestResolver (cancelRequest s) = None)
   \<and> (\<not> requestTrusted s \<and> modalTrustRequestPromise s = None \<longrightarrow>
        (let r1 = fst (requestWorkspaceTrust o1 s); s1 = snd (requestWorkspaceTrust o1 s);
             s2 = cancelRequest s1;
             r2 = fst (requestWorkspaceTrust o2 s2); s3 = snd (requestWorkspaceTrust o2 s2)
         in observe s1 r1 = None
            \<and> observe s2 r1 = Some None
            \<and> modalTrustRequestPromise s2 = None \<and> modalTrustRequestResolver s2 = None
            \<and> r2 \<noteq> r1
            \<and> observe s3 r2 = None
            \<and> observe s3 r1 = Some None
            \<and> observe (resolveRequest arg s3) r1 = Some None
            \<and> trace s3 = trace s @ [DidInitiateWorkspaceTrustRequest o1,
                                     DidInitiateWorkspaceTrustRequest o2]))"
proof (intro conjI impI)
  show "cancelRequest s = s" if "modalTrustRequestResolver s = None"
    using that by (simp add: cancelRequest_def)
next
  assume h: "modalTrustRequestResolver s = Some p \<and> p < length (promises s)
             \<and> promises s ! p = None"
  then have c: "observe (cancelRequest s) (Follows p) = Some None
       \<and> modalTrustRequestPromise (cancelRequest s) = None
       \<and> modalTrustRequestResolver (cancelRequest s) = None
       \<and> trace (cancelRequest s) = trace s"
    using cancelRequest_pending [of s p] by blast
  from c show "observe (cancelRequest s) (Follows p) = Some None" by blast
  from c show "modalTrustRequestPromise (cancelRequest s) = None" by blast
  from c show "modalTrustRequestResolver (cancelRequest s) = None" by blast
next
  assume h: "\<not> requestTrusted s \<and> modalTrustRequestPromise s = None"
  then have nt: "\<not> requestTrusted s" and np: "modalTrustRequestPromise s = None" by simp_all
  let ?n = "length (promises s)"
  let ?s1 = "s\<lparr>promises := promises s @ [None],
              modalTrustRequestResolver := Some ?n,
              modalTrustRequestPromise := Some ?n,
              trace := trace s @ [DidInitiateWorkspaceTrustRequest o1]\<rparr>"
  let ?s2 = "s\<lparr>promises := promises s @ [Some None],
              modalTrustRequestResolver := None,
              modalTrustRequestPromise := None,
              trace := trace s @ [DidInitiateWorkspaceTrustRequest o1]\<rparr>"
  let ?s3 = "s\<lparr>promises := promises s @ [Some None, None],
              modalTrustRequestResolver := Some (Suc ?n),
              modalTrustRequestPromise := Some (Suc ?n),
              trace := trace s @ [DidInitiateWorkspaceTrustRequest o1,
                                  DidInitiateWorkspaceTrustRequest o2]\<rparr>"
  have r1: "requestWorkspaceTrust o1 s = (Follows ?n, ?s1)"
    by (rule requestWorkspaceTrust_fresh [OF nt np])
  have c: "cancelRequest ?s1 = ?s2"
    by (simp add: cancelRequest_def settle_def)
  have r2: "requestWorkspaceTrust o2 ?s2 = (Follows (Suc ?n), ?s3)"
    using nt by (simp add: requestWorkspaceTrust_def Let_def fire_def)
  have rr: "promises (resolveRequest arg ?s3) = promises s @ [Some None, Some (Some (case arg of Some b \<Rightarrow> b | None \<Rightarrow> requestTrusted s))]"
    by (simp add: resolveRequest_def settle_def nth_append list_update_append
          split: option.splits)
  show "let r1 = fst (requestWorkspaceTrust o1 s); s1 = snd (requestWorkspaceTrust o1 s);
             s2 = cancelRequest s1;
             r2 = fst (requestWorkspaceTrust o2 s2); s3 = snd (requestWorkspaceTrust o2 s2)
         in observe s1 r1 = None
            \<and> observe s2 r1 = Some None
            \<and> modalTrustRequestPromise s2 = None \<and> modalTrustRequestResolver s2 = None
            \<and> r2 \<noteq> r1
            \<and> observe s3 r2 = None
            \<and> observe s3 r1 = Some None
            \<and> observe (resolveRequest arg s3) r1 = Some None
            \<and> trace s3 = trace s @ [DidInitiateWorkspaceTrustRequest o1,
                                     DidInitiateWorkspaceTrustRequest o2]"
    unfolding Let_def r1 fst_conv snd_conv c r2
    by (simp add: observe_def nth_append rr)
qed

theorem cancelRequest_resolves_undefined_witness:
  "cancelRequest freshService = freshService
   \<and> observe (cancelRequest
        (freshService\<lparr>promises := [None], modalTrustRequestResolver := Some 0,
           modalTrustRequestPromise := Some 0\<rparr>)) (Follows 0) = Some None
   \<and> observe (snd (requestWorkspaceTrust None freshService)) (Follows 0) = None
   \<and> observe (cancelRequest (snd (requestWorkspaceTrust None freshService))) (Follows 0)
       = Some None
   \<and> fst (requestWorkspaceTrust None
            (cancelRequest (snd (requestWorkspaceTrust None freshService)))) = Follows 1
   \<and> trace (snd (requestWorkspaceTrust None
            (cancelRequest (snd (requestWorkspaceTrust None freshService)))))
       = [DidInitiateWorkspaceTrustRequest None, DidInitiateWorkspaceTrustRequest None]"
proof -
  let ?P = "freshService\<lparr>promises := [None], modalTrustRequestResolver := Some 0,
              modalTrustRequestPromise := Some 0\<rparr>"
  have h: "\<not> requestTrusted freshService \<and> modalTrustRequestPromise freshService = None"
    by (simp add: freshService_def)
  have n: "modalTrustRequestResolver freshService = None"
    by (simp add: freshService_def)
  have hp: "modalTrustRequestResolver ?P = Some 0 \<and> 0 < length (promises ?P)
            \<and> promises ?P ! 0 = None"
    by simp
  have tr0: "trace freshService = []" by (simp add: freshService_def)
  have r1: "fst (requestWorkspaceTrust None freshService) = Follows 0"
    by (simp add: requestWorkspaceTrust_def freshService_def Let_def)
  note T = cancelRequest_resolves_undefined
             [where s = freshService and ?o1.0 = None and ?o2.0 = None, unfolded Let_def]
  note P = cancelRequest_resolves_undefined [where s = ?P and p = 0]
  have 0: "cancelRequest freshService = freshService"
    using T n by blast
  have 5: "observe (cancelRequest ?P) (Follows 0) = Some None"
    using P hp by blast
  have "observe (snd (requestWorkspaceTrust None freshService))
          (fst (requestWorkspaceTrust None freshService)) = None"
    using T h by blast
  then have 1: "observe (snd (requestWorkspaceTrust None freshService)) (Follows 0) = None"
    by (simp only: r1)
  have "observe (cancelRequest (snd (requestWorkspaceTrust None freshService)))
          (fst (requestWorkspaceTrust None freshService)) = Some None"
    using T h by blast
  then have 2: "observe (cancelRequest (snd (requestWorkspaceTrust None freshService)))
                  (Follows 0) = Some None"
    by (simp only: r1)
  have 3: "fst (requestWorkspaceTrust None
            (cancelRequest (snd (requestWorkspaceTrust None freshService)))) = Follows 1"
    by (simp add: requestWorkspaceTrust_def cancelRequest_def settle_def freshService_def
          Let_def fire_def)
  have 4: "trace (snd (requestWorkspaceTrust None
            (cancelRequest (snd (requestWorkspaceTrust None freshService)))))
       = trace freshService
         @ [DidInitiateWorkspaceTrustRequest None, DidInitiateWorkspaceTrustRequest None]"
    using T h by blast
  from 0 5 1 2 3 4 show ?thesis by (simp only: tr0 append_Nil)
qed

end
